theory Spec2Isabelle
  imports Main "HOL-Library.Multiset"
begin

section \<open>JavaScript values used by server.js\<close>

text \<open>
  Text values of the request (header values, body fields) are \<open>string option\<close>:
  \<open>None\<close> is JavaScript's \<open>undefined\<close>, and \<open>===\<close> between two such values is
  HOL equality. Identifiers of stored documents are natural numbers (well-formed
  ObjectIds), timestamps are milliseconds.

  Outside the model: identifiers that are not well-formed ObjectIds, a database that
  cannot be reached, body fields that are not plain strings or that are repeated, and
  multipart bodies with more than one file part or with a file part under another name
  than \<open>file\<close>. The health check and the static routes are left out.
\<close>

type_synonym oid = nat
type_synonym timestamp = nat

text \<open>\<open>String.prototype.startsWith\<close> and \<open>String.prototype.includes\<close>.\<close>

fun startsWith :: "string \<Rightarrow> string \<Rightarrow> bool" where
  "startsWith s [] = True"
| "startsWith [] (p # ps) = False"
| "startsWith (c # s) (p # ps) = (c = p \<and> startsWith s ps)"

fun str_includes :: "string \<Rightarrow> string \<Rightarrow> bool" where
  "str_includes [] sub = (sub = [])"
| "str_includes (c # s) sub = (startsWith (c # s) sub \<or> str_includes s sub)"

text \<open>\<open>a || b\<close> on a possibly undefined string: the empty string and \<open>undefined\<close> are falsy.\<close>

definition js_or :: "string option \<Rightarrow> string \<Rightarrow> string" where
  "js_or a b = (case a of None \<Rightarrow> b | Some s \<Rightarrow> if s = [] then b else s)"

text \<open>
  A path that the constructor receives as \<open>undefined\<close> is carried as the empty string:
  the \<open>required\<close> validator of a String path rejects both in the same way.
\<close>

definition path_value :: "string option \<Rightarrow> string" where
  "path_value v = (case v of None \<Rightarrow> [] | Some s \<Rightarrow> s)"

section \<open>Schemas (server.js lines 36-64)\<close>

record content =
  title :: string
  description :: string
  fileUrl :: string
  fileType :: string
  publicId :: string
  category :: string
  createdAt :: timestamp
  updatedAt :: timestamp

record project =
  projectTitle :: string
  studentName :: string
  rollNo :: string
  department :: string
  year :: string
  description :: string
  fileUrl :: string
  fileType :: string
  publicId :: string
  createdAt :: timestamp
  updatedAt :: timestamp

datatype collection = Content | Project

section \<open>Errors, responses, effects\<close>

text \<open>
  The message of a schema validation error is produced by the database library; it is
  kept structured: the model name and the paths that failed \<open>required\<close>.
\<close>

datatype message = Text string | ValidationFailed string "string list"

record js_error =
  err_status :: "nat option"
  err_message :: message

datatype json =
    ErrorJson message
  | MessageJson string
  | ValidJson bool
  | ContentJson oid content
  | ContentsJson "(oid \<times> content) list"
  | ProjectJson oid project
  | ProjectsJson "(oid \<times> project) list"

datatype response = Response nat json

text \<open>
  Everything a request does outside the process, in the order it happens: calls of the
  remote media store, console output, and operations on the database.
  \<open>CloudinaryUpload\<close> carries the folder and the resource type, \<open>CloudinaryDestroy\<close>
  the public id and the resource type that \<open>deleteFromCloudinary\<close> passes, and
  \<open>CloudinaryRemoveFile\<close> the public id (if any) of an upload that the storage engine
  takes back when the upload middleware gives up on a request.
\<close>

datatype effect =
    CloudinaryUpload string string
  | CloudinaryDestroy string string
  | CloudinaryRemoveFile "string option"
  | ConsoleLog
  | ConsoleError
  | DbFind collection
  | DbFindById collection oid
  | DbSave collection oid
  | DbFindByIdAndDelete collection oid

section \<open>Configuration, outside world, state\<close>

record config =
  ADMIN_PASSWORD :: "string option"

text \<open>
  What the outside world does during one request: the milliseconds that pass before the
  first and between the first and the second reading of \<open>Date.now\<close> (time never runs
  backwards), what the remote store answers to an upload (an error, or the URL and the
  public id), and whether its \<open>destroy\<close> call throws.
\<close>

record external =
  elapsed_first :: nat
  elapsed_second :: nat
  upload_result :: "js_error + string \<times> string"
  destroy_fails :: bool

record world =
  contents :: "(oid \<times> content) list"
  projects :: "(oid \<times> project) list"
  clock :: timestamp

definition Date_now :: "nat \<Rightarrow> world \<Rightarrow> timestamp \<times> world" where
  "Date_now elapsed w = (clock w + elapsed, w\<lparr>clock := clock w + elapsed\<rparr>)"

subsection \<open>The collections\<close>

definition findById :: "(oid \<times> 'a) list \<Rightarrow> oid \<Rightarrow> 'a option" where
  "findById docs i = map_of docs i"

definition new_id :: "(oid \<times> 'a) list \<Rightarrow> oid" where
  "new_id docs = Suc (fold max (map fst docs) 0)"

definition insertOne :: "oid \<Rightarrow> 'a \<Rightarrow> (oid \<times> 'a) list \<Rightarrow> (oid \<times> 'a) list" where
  "insertOne i d docs = docs @ [(i, d)]"

definition replaceOne :: "oid \<Rightarrow> 'a \<Rightarrow> (oid \<times> 'a) list \<Rightarrow> (oid \<times> 'a) list" where
  "replaceOne i d docs = map (\<lambda>(j, e). if j = i then (j, d) else (j, e)) docs"

definition deleteOne :: "oid \<Rightarrow> (oid \<times> 'a) list \<Rightarrow> (oid \<times> 'a) list" where
  "deleteOne i docs = filter (\<lambda>(j, e). j \<noteq> i) docs"

text \<open>Validation on \<open>save\<close>: every String path of the schema is \<open>required\<close>.\<close>

definition content_paths :: "content \<Rightarrow> (string \<times> string) list" where
  "content_paths c =
     [(''title'', title c), (''description'', content.description c),
      (''fileUrl'', content.fileUrl c), (''fileType'', content.fileType c),
      (''publicId'', content.publicId c), (''category'', category c)]"

definition project_paths :: "project \<Rightarrow> (string \<times> string) list" where
  "project_paths p =
     [(''projectTitle'', projectTitle p), (''studentName'', studentName p),
      (''rollNo'', rollNo p), (''department'', department p), (''year'', year p),
      (''description'', project.description p), (''fileUrl'', project.fileUrl p),
      (''fileType'', project.fileType p), (''publicId'', project.publicId p)]"

definition required_failures :: "(string \<times> string) list \<Rightarrow> string list" where
  "required_failures paths = map fst (filter (\<lambda>(name, v). v = []) paths)"

definition validate :: "string \<Rightarrow> (string \<times> string) list \<Rightarrow> js_error option" where
  "validate model paths =
     (case required_failures paths of
        [] \<Rightarrow> None
      | m # ms \<Rightarrow> Some \<lparr>err_status = None, err_message = ValidationFailed model (m # ms)\<rparr>)"

section \<open>The Express request\<close>

text \<open>
  The file part as the upload middleware presents it to the filter and to the storage
  engine: \<open>mimetype\<close> is \<open>file.mimetype\<close>, the part's content type as the parser
  reports it (type and subtype in lower case, parameters dropped), and \<open>bytes\<close> is the
  length of the part's stream. \<open>req.file\<close> is the same object once the storage engine
  has stored it, extended by the URL (\<open>path\<close>) and the public id (\<open>filename\<close>)
  that the remote store returned.
\<close>

record incoming_file =
  mimetype :: string
  bytes :: nat

record req_file = incoming_file +
  path :: string
  filename :: string

record req =
  baseUrl :: string
  x_admin_password :: "string option"
  body :: "string \<rightharpoonup> string"
  uploaded :: "req_file option"

section \<open>Upload pipeline (server.js lines 67-121)\<close>

record upload_params =
  folder :: string
  resource_type :: string
  allowed_formats :: "string list"
  transformation :: "(nat \<times> nat \<times> string) option"

definition params :: "req \<Rightarrow> incoming_file \<Rightarrow> upload_params" where
  "params rq f =
     \<lparr>folder =
        (if str_includes (baseUrl rq) ''projects'' then ''portfolio/projects''
         else if body rq ''category'' = Some ''curriculum'' then ''portfolio/curriculum''
         else if body rq ''category'' = Some ''hobbies'' then ''portfolio/hobbies''
         else ''portfolio''),
      resource_type =
        (if startsWith (mimetype f) ''video/'' then ''video''
         else if startsWith (mimetype f) ''image/'' then ''image''
         else ''raw''),
      allowed_formats =
        [''jpg'', ''jpeg'', ''png'', ''gif'', ''mp4'', ''webm'', ''pdf'', ''doc'', ''docx''],
      transformation =
        (if startsWith (mimetype f) ''image/'' then Some (1200, 1200, ''limit'') else None)\<rparr>"

definition allowedTypes :: "string list" where
  "allowedTypes =
     [''image/jpeg'', ''image/png'', ''image/gif'',
      ''video/mp4'', ''video/webm'',
      ''application/pdf'',
      ''application/msword'',
      ''application/vnd.openxmlformats-officedocument.wordprocessingml.document'']"

definition fileFilter :: "incoming_file \<Rightarrow> js_error + bool" where
  "fileFilter f =
     (if mimetype f \<in> set allowedTypes then Inr True
      else Inl \<lparr>err_status = None,
                err_message = Text
                  ''Invalid file type. Only images, videos, PDFs, and Word documents are allowed.''\<rparr>)"

definition fileSize :: nat where
  "fileSize = 50 * 1024 * 1024"

text \<open>
  \<open>upload.single('file')\<close>. The upload library's documented behaviour: a request
  without a file part goes on with \<open>req.file\<close> undefined; the filter is asked first and
  its error ends the request; an accepted file is handed to the storage engine, which
  calls \<open>params\<close> with the body fields received so far (those sent before the file part)
  and streams the file to the remote store. A stream that reaches \<open>limits.fileSize\<close>
  bytes is cut off there and ends the request with the error \<open>File too large\<close>: a file
  of exactly that size is refused, one byte less is accepted. The cut-off upload has
  gone to the remote store by then; the middleware has the storage engine take it back
  (\<open>destroy\<close> of the public id the store returned, or of no id when the store refused
  the cut-off upload).
\<close>

datatype multer_result = Next_error js_error | Next "req_file option"

definition upload_single ::
  "external \<Rightarrow> req \<Rightarrow> incoming_file option \<Rightarrow> multer_result \<times> effect list" where
  "upload_single ext rq part =
     (case part of
        None \<Rightarrow> (Next None, [])
      | Some f \<Rightarrow>
          (case fileFilter f of
             Inl e \<Rightarrow> (Next_error e, [])
           | Inr accepted \<Rightarrow>
               (let p = params rq f;
                    fx = [CloudinaryUpload (folder p) (resource_type p)]
                in if fileSize \<le> bytes f
                   then (Next_error \<lparr>err_status = None, err_message = Text ''File too large''\<rparr>,
                         fx @ [CloudinaryRemoveFile
                                 (case upload_result ext of
                                    Inl e \<Rightarrow> None
                                  | Inr (url, pid) \<Rightarrow> Some pid)])
                   else (case upload_result ext of
                           Inl e \<Rightarrow> (Next_error e, fx)
                         | Inr (url, pid) \<Rightarrow>
                             (Next (Some \<lparr>mimetype = mimetype f, bytes = bytes f,
                                          path = url, filename = pid\<rparr>), fx)))))"

section \<open>Middleware and helpers (server.js lines 124-148, 389-394)\<close>

definition authenticate :: "config \<Rightarrow> req \<Rightarrow> response option" where
  "authenticate cfg rq =
     (if x_admin_password rq = ADMIN_PASSWORD cfg then None
      else Some (Response 401 (ErrorJson (Text ''Unauthorized''))))"

definition deleteFromCloudinary :: "external \<Rightarrow> string \<Rightarrow> string \<Rightarrow> effect list" where
  "deleteFromCloudinary ext pid rtype =
     [CloudinaryDestroy pid rtype, if destroy_fails ext then ConsoleError else ConsoleLog]"

definition getResourceType :: "string \<Rightarrow> string" where
  "getResourceType ftype =
     (if startsWith ftype ''video/'' then ''video''
      else if startsWith ftype ''image/'' then ''image''
      else ''raw'')"

definition error_middleware :: "js_error \<Rightarrow> response \<times> effect list" where
  "error_middleware e =
     (Response (case err_status e of None \<Rightarrow> 500 | Some s \<Rightarrow> if s = 0 then 500 else s)
               (ErrorJson (if err_message e = Text [] then Text ''Internal Server Error''
                           else err_message e)),
      [ConsoleError])"

section \<open>Content routes (server.js lines 153-249)\<close>

text \<open>
  Each handler takes the world and gives the response, the effects in order, and the new
  world. \<open>find(...).sort({createdAt: -1})\<close> is a sort on the negated creation time.
\<close>

definition get_content_by_category :: "string \<Rightarrow> world \<Rightarrow> response \<times> effect list \<times> world" where
  "get_content_by_category cat w =
     (Response 200
        (ContentsJson (sort_key (\<lambda>d. - int (content.createdAt (snd d)))
                         (filter (\<lambda>d. category (snd d) = cat) (contents w)))),
      [DbFind Content], w)"

definition get_content_item :: "oid \<Rightarrow> world \<Rightarrow> response \<times> effect list \<times> world" where
  "get_content_item i w =
     (case findById (contents w) i of
        None \<Rightarrow> (Response 404 (ErrorJson (Text ''Content not found'')), [DbFindById Content i], w)
      | Some c \<Rightarrow> (Response 200 (ContentJson i c), [DbFindById Content i], w))"

definition post_content :: "external \<Rightarrow> req \<Rightarrow> world \<Rightarrow> response \<times> effect list \<times> world" where
  "post_content ext rq w =
     (case uploaded rq of
        None \<Rightarrow> (Response 400 (ErrorJson (Text ''No file uploaded'')), [], w)
      | Some f \<Rightarrow>
          (let (created, w1) = Date_now (elapsed_first ext) w;
               (updated, w2) = Date_now (elapsed_second ext) w1;
               i = new_id (contents w2);
               newContent =
                 \<lparr>title = path_value (body rq ''title''),
                  content.description = path_value (body rq ''description''),
                  content.fileUrl = path f,
                  content.fileType = mimetype f,
                  content.publicId = filename f,
                  category = path_value (body rq ''category''),
                  content.createdAt = created,
                  content.updatedAt = updated\<rparr>
           in case validate ''Content'' (content_paths newContent) of
                Some e \<Rightarrow> (Response 500 (ErrorJson (err_message e)), [], w2)
              | None \<Rightarrow>
                  (Response 201 (ContentJson i newContent), [DbSave Content i],
                   w2\<lparr>contents := insertOne i newContent (contents w2)\<rparr>)))"

definition put_content :: "external \<Rightarrow> req \<Rightarrow> oid \<Rightarrow> world \<Rightarrow> response \<times> effect list \<times> world" where
  "put_content ext rq i w =
     (case findById (contents w) i of
        None \<Rightarrow> (Response 404 (ErrorJson (Text ''Content not found'')), [DbFindById Content i], w)
      | Some c \<Rightarrow>
          (let (now, w1) = Date_now (elapsed_first ext) w;
               c1 = c\<lparr>title := js_or (body rq ''title'') (title c),
                      content.description :=
                        js_or (body rq ''description'') (content.description c),
                      content.updatedAt := now\<rparr>;
               fx = (case uploaded rq of
                       None \<Rightarrow> []
                     | Some f \<Rightarrow>
                         deleteFromCloudinary ext (content.publicId c1)
                           (getResourceType (content.fileType c1)));
               c2 = (case uploaded rq of
                       None \<Rightarrow> c1
                     | Some f \<Rightarrow>
                         c1\<lparr>content.fileUrl := path f,
                            content.fileType := mimetype f,
                            content.publicId := filename f\<rparr>)
           in case validate ''Content'' (content_paths c2) of
                Some e \<Rightarrow> (Response 500 (ErrorJson (err_message e)), DbFindById Content i # fx, w1)
              | None \<Rightarrow>
                  (Response 200 (ContentJson i c2),
                   DbFindById Content i # fx @ [DbSave Content i],
                   w1\<lparr>contents := replaceOne i c2 (contents w1)\<rparr>)))"

definition delete_content :: "external \<Rightarrow> oid \<Rightarrow> world \<Rightarrow> response \<times> effect list \<times> world" where
  "delete_content ext i w =
     (case findById (contents w) i of
        None \<Rightarrow> (Response 404 (ErrorJson (Text ''Content not found'')), [DbFindById Content i], w)
      | Some c \<Rightarrow>
          (Response 200 (MessageJson ''Content deleted successfully''),
           DbFindById Content i
             # deleteFromCloudinary ext (content.publicId c) (getResourceType (content.fileType c))
             @ [DbFindByIdAndDelete Content i],
           w\<lparr>contents := deleteOne i (contents w)\<rparr>))"

section \<open>Project routes (server.js lines 254-357)\<close>

definition get_projects :: "world \<Rightarrow> response \<times> effect list \<times> world" where
  "get_projects w =
     (Response 200
        (ProjectsJson (sort_key (\<lambda>d. - int (project.createdAt (snd d))) (projects w))),
      [DbFind Project], w)"

definition get_project :: "oid \<Rightarrow> world \<Rightarrow> response \<times> effect list \<times> world" where
  "get_project i w =
     (case findById (projects w) i of
        None \<Rightarrow> (Response 404 (ErrorJson (Text ''Project not found'')), [DbFindById Project i], w)
      | Some p \<Rightarrow> (Response 200 (ProjectJson i p), [DbFindById Project i], w))"

definition post_project :: "external \<Rightarrow> req \<Rightarrow> world \<Rightarrow> response \<times> effect list \<times> world" where
  "post_project ext rq w =
     (case uploaded rq of
        None \<Rightarrow> (Response 400 (ErrorJson (Text ''No file uploaded'')), [], w)
      | Some f \<Rightarrow>
          (let (created, w1) = Date_now (elapsed_first ext) w;
               (updated, w2) = Date_now (elapsed_second ext) w1;
               i = new_id (projects w2);
               newProject =
                 \<lparr>projectTitle = path_value (body rq ''projectTitle''),
                  studentName = path_value (body rq ''studentName''),
                  rollNo = path_value (body rq ''rollNo''),
                  department = path_value (body rq ''department''),
                  year = path_value (body rq ''year''),
                  project.description = path_value (body rq ''description''),
                  project.fileUrl = path f,
                  project.fileType = mimetype f,
                  project.publicId = filename f,
                  project.createdAt = created,
                  project.updatedAt = updated\<rparr>
           in case validate ''Project'' (project_paths newProject) of
                Some e \<Rightarrow> (Response 500 (ErrorJson (err_message e)), [], w2)
              | None \<Rightarrow>
                  (Response 201 (ProjectJson i newProject), [DbSave Project i],
                   w2\<lparr>projects := insertOne i newProject (projects w2)\<rparr>)))"

definition put_project :: "external \<Rightarrow> req \<Rightarrow> oid \<Rightarrow> world \<Rightarrow> response \<times> effect list \<times> world" where
  "put_project ext rq i w =
     (case findById (projects w) i of
        None \<Rightarrow> (Response 404 (ErrorJson (Text ''Project not found'')), [DbFindById Project i], w)
      | Some p \<Rightarrow>
          (let (now, w1) = Date_now (elapsed_first ext) w;
               p1 = p\<lparr>projectTitle := js_or (body rq ''projectTitle'') (projectTitle p),
                      studentName := js_or (body rq ''studentName'') (studentName p),
                      rollNo := js_or (body rq ''rollNo'') (rollNo p),
                      department := js_or (body rq ''department'') (department p),
                      year := js_or (body rq ''year'') (year p),
                      project.description :=
                        js_or (body rq ''description'') (project.description p),
                      project.updatedAt := now\<rparr>;
               fx = (case uploaded rq of
                       None \<Rightarrow> []
                     | Some f \<Rightarrow>
                         deleteFromCloudinary ext (project.publicId p1)
                           (getResourceType (project.fileType p1)));
               p2 = (case uploaded rq of
                       None \<Rightarrow> p1
                     | Some f \<Rightarrow>
                         p1\<lparr>project.fileUrl := path f,
                            project.fileType := mimetype f,
                            project.publicId := filename f\<rparr>)
           in case validate ''Project'' (project_paths p2) of
                Some e \<Rightarrow> (Response 500 (ErrorJson (err_message e)), DbFindById Project i # fx, w1)
              | None \<Rightarrow>
                  (Response 200 (ProjectJson i p2),
                   DbFindById Project i # fx @ [DbSave Project i],
                   w1\<lparr>projects := replaceOne i p2 (projects w1)\<rparr>)))"

definition delete_project :: "external \<Rightarrow> oid \<Rightarrow> world \<Rightarrow> response \<times> effect list \<times> world" where
  "delete_project ext i w =
     (case findById (projects w) i of
        None \<Rightarrow> (Response 404 (ErrorJson (Text ''Project not found'')), [DbFindById Project i], w)
      | Some p \<Rightarrow>
          (Response 200 (MessageJson ''Project deleted successfully''),
           DbFindById Project i
             # deleteFromCloudinary ext (project.publicId p) (getResourceType (project.fileType p))
             @ [DbFindByIdAndDelete Project i],
           w\<lparr>projects := deleteOne i (projects w)\<rparr>))"

section \<open>Admin verification (server.js lines 362-369)\<close>

definition verify_admin :: "config \<Rightarrow> req \<Rightarrow> response" where
  "verify_admin cfg rq =
     (if body rq ''password'' = ADMIN_PASSWORD cfg then Response 200 (ValidJson True)
      else Response 200 (ValidJson False))"

section \<open>The application\<close>

datatype route =
    GET_content_category string
  | GET_content_item oid
  | POST_content
  | PUT_content oid
  | DELETE_content oid
  | GET_projects
  | GET_project oid
  | POST_project
  | PUT_project oid
  | DELETE_project oid
  | POST_verify_admin

text \<open>
  A request as it arrives: the route it matches, the \<open>x-admin-password\<close> header, and
  its body: the text fields sent before the file part, the file part named \<open>file\<close> if
  there is one, and the text fields sent after it. A body without a file part (multipart,
  JSON or URL-encoded) has all its fields in \<open>fields_before_file\<close>.
\<close>

record http_request =
  route :: route
  header_x_admin_password :: "string option"
  fields_before_file :: "string \<rightharpoonup> string"
  file_part :: "incoming_file option"
  fields_after_file :: "string \<rightharpoonup> string"

text \<open>
  Every route is registered on \<open>app\<close> itself (\<open>app.get\<close>, \<open>app.post\<close>, \<open>app.put\<close>,
  \<open>app.delete\<close>) and no router is mounted under a path, so the framework leaves
  \<open>req.baseUrl\<close> as the empty string for every request.
\<close>

definition express_req :: "http_request \<Rightarrow> req" where
  "express_req r =
     \<lparr>baseUrl = [], x_admin_password = header_x_admin_password r,
      body = fields_before_file r, uploaded = None\<rparr>"

definition parsed_body :: "http_request \<Rightarrow> string \<rightharpoonup> string" where
  "parsed_body r = fields_before_file r ++ fields_after_file r"

text \<open>The chain \<open>authenticate, handler\<close> of the two DELETE routes.\<close>

definition protected ::
  "config \<Rightarrow> http_request \<Rightarrow> world \<Rightarrow> (world \<Rightarrow> response \<times> effect list \<times> world)
     \<Rightarrow> response \<times> effect list \<times> world" where
  "protected cfg r w handler =
     (case authenticate cfg (express_req r) of
        Some denied \<Rightarrow> (denied, [], w)
      | None \<Rightarrow> handler w)"

text \<open>The chain \<open>authenticate, upload.single('file'), handler\<close> of the POST and PUT routes.\<close>

definition protected_upload ::
  "config \<Rightarrow> external \<Rightarrow> http_request \<Rightarrow> world
     \<Rightarrow> (req \<Rightarrow> world \<Rightarrow> response \<times> effect list \<times> world)
     \<Rightarrow> response \<times> effect list \<times> world" where
  "protected_upload cfg ext r w handler =
     (case authenticate cfg (express_req r) of
        Some denied \<Rightarrow> (denied, [], w)
      | None \<Rightarrow>
          (case upload_single ext (express_req r) (file_part r) of
             (Next_error e, fx) \<Rightarrow>
               (case error_middleware e of (resp, efx) \<Rightarrow> (resp, fx @ efx, w))
           | (Next f, fx) \<Rightarrow>
               (case handler ((express_req r)\<lparr>body := parsed_body r, uploaded := f\<rparr>) w of
                  (resp, fx', w') \<Rightarrow> (resp, fx @ fx', w'))))"

definition app ::
  "config \<Rightarrow> external \<Rightarrow> http_request \<Rightarrow> world \<Rightarrow> response \<times> effect list \<times> world" where
  "app cfg ext r w =
     (case route r of
        GET_content_category cat \<Rightarrow> get_content_by_category cat w
      | GET_content_item i \<Rightarrow> get_content_item i w
      | POST_content \<Rightarrow> protected_upload cfg ext r w (post_content ext)
      | PUT_content i \<Rightarrow> protected_upload cfg ext r w (\<lambda>rq. put_content ext rq i)
      | DELETE_content i \<Rightarrow> protected cfg r w (delete_content ext i)
      | GET_projects \<Rightarrow> get_projects w
      | GET_project i \<Rightarrow> get_project i w
      | POST_project \<Rightarrow> protected_upload cfg ext r w (post_project ext)
      | PUT_project i \<Rightarrow> protected_upload cfg ext r w (\<lambda>rq. put_project ext rq i)
      | DELETE_project i \<Rightarrow> protected cfg r w (delete_project ext i)
      | POST_verify_admin \<Rightarrow>
          (verify_admin cfg ((express_req r)\<lparr>body := parsed_body r\<rparr>), [], w))"

definition mutating :: "route \<Rightarrow> bool" where
  "mutating rt =
     (case rt of
        POST_content \<Rightarrow> True | PUT_content i \<Rightarrow> True | DELETE_content i \<Rightarrow> True
      | POST_project \<Rightarrow> True | PUT_project i \<Rightarrow> True | DELETE_project i \<Rightarrow> True
      | _ \<Rightarrow> False)"

text \<open>A sequence of requests, each with what the outside world does while it is served.\<close>

fun run :: "config \<Rightarrow> world \<Rightarrow> (external \<times> http_request) list \<Rightarrow> world" where
  "run cfg w [] = w"
| "run cfg w ((ext, r) # rs) = run cfg (snd (snd (app cfg ext r w))) rs"

definition empty_world :: world where
  "empty_world = \<lparr>contents = [], projects = [], clock = 0\<rparr>"

section \<open>Reading the effects\<close>

text \<open>
  The calls of the remote store's \<open>destroy\<close> that \<open>deleteFromCloudinary\<close> makes, among
  the effects, in order.
\<close>

fun destroy_calls :: "effect list \<Rightarrow> (string \<times> string) list" where
  "destroy_calls [] = []"
| "destroy_calls (CloudinaryDestroy pid rtype # fx) = (pid, rtype) # destroy_calls fx"
| "destroy_calls (e # fx) = destroy_calls fx"

fun is_save :: "effect \<Rightarrow> bool" where
  "is_save (DbSave coll i) = True"
| "is_save e = False"

section \<open>Timestamps\<close>

text \<open>
  Every stored record was created no later than it was last updated, and no later than
  the latest reading of the clock.
\<close>

definition timestamps_ok :: "world \<Rightarrow> bool" where
  "timestamps_ok w =
     (list_all (\<lambda>d. content.createdAt (snd d) \<le> content.updatedAt (snd d)
                    \<and> content.createdAt (snd d) \<le> clock w) (contents w)
      \<and> list_all (\<lambda>d. project.createdAt (snd d) \<le> project.updatedAt (snd d)
                      \<and> project.createdAt (snd d) \<le> clock w) (projects w))"

text \<open>
  What one request may do to the state, used in the proofs about timestamps: the clock
  does not go back, a record found before and after has kept its \<open>createdAt\<close>, and
  \<open>timestamps_ok\<close> is kept.
\<close>

definition keeps_history :: "world \<Rightarrow> world \<Rightarrow> bool" where
  "keeps_history w w' =
     (clock w \<le> clock w'
      \<and> (\<forall>i c c'. findById (contents w) i = Some c \<longrightarrow> findById (contents w') i = Some c'
             \<longrightarrow> content.createdAt c' = content.createdAt c)
      \<and> (\<forall>i p p'. findById (projects w) i = Some p \<longrightarrow> findById (projects w') i = Some p'
             \<longrightarrow> project.createdAt p' = project.createdAt p)
      \<and> (timestamps_ok w \<longrightarrow> timestamps_ok w'))"

section \<open>Sample data\<close>

definition sample_content :: content where
  "sample_content =
     \<lparr>title = ''Syllabus'', content.description = ''First term'',
      content.fileUrl = ''https://media.example/syllabus.pdf'',
      content.fileType = ''application/pdf'',
      content.publicId = ''portfolio/curriculum/syllabus'',
      category = ''curriculum'', content.createdAt = 10, content.updatedAt = 10\<rparr>"

definition sample_photo :: content where
  "sample_photo =
     \<lparr>title = ''Garden'', content.description = ''Roses'',
      content.fileUrl = ''https://media.example/garden.png'',
      content.fileType = ''image/png'',
      content.publicId = ''portfolio/hobbies/garden'',
      category = ''hobbies'', content.createdAt = 12, content.updatedAt = 15\<rparr>"

definition sample_sketch :: content where
  "sample_sketch =
     \<lparr>title = ''Sketch'', content.description = ''Charcoal'',
      content.fileUrl = ''https://media.example/sketch.jpg'',
      content.fileType = ''image/jpeg'',
      content.publicId = ''portfolio/hobbies/sketch'',
      category = ''hobbies'', content.createdAt = 18, content.updatedAt = 18\<rparr>"

definition sample_project :: project where
  "sample_project =
     \<lparr>projectTitle = ''Robot'', studentName = ''Asha'', rollNo = ''17'',
      department = ''ECE'', year = ''2024'', project.description = ''Line follower'',
      project.fileUrl = ''https://media.example/robot.mp4'',
      project.fileType = ''video/mp4'',
      project.publicId = ''portfolio/robot'',
      project.createdAt = 14, project.updatedAt = 14\<rparr>"

definition sample_world :: world where
  "sample_world =
     \<lparr>contents = [(1, sample_content), (2, sample_photo), (3, sample_sketch)],
      projects = [(1, sample_project)], clock = 20\<rparr>"

definition sample_external :: external where
  "sample_external =
     \<lparr>elapsed_first = 5, elapsed_second = 1,
      upload_result = Inr (''https://media.example/new.pdf'', ''portfolio/new''),
      destroy_fails = True\<rparr>"

definition sample_pdf :: incoming_file where
  "sample_pdf = \<lparr>mimetype = ''application/pdf'', bytes = 10240\<rparr>"

definition sample_zip :: incoming_file where
  "sample_zip = \<lparr>mimetype = ''application/zip'', bytes = 10240\<rparr>"

definition bare_request :: "route \<Rightarrow> string option \<Rightarrow> http_request" where
  "bare_request rt hdr =
     \<lparr>route = rt, header_x_admin_password = hdr, fields_before_file = Map.empty,
      file_part = None, fields_after_file = Map.empty\<rparr>"

definition file_request ::
  "route \<Rightarrow> string option \<Rightarrow> (string \<rightharpoonup> string) \<Rightarrow> incoming_file \<Rightarrow> http_request" where
  "file_request rt hdr flds f =
     \<lparr>route = rt, header_x_admin_password = hdr, fields_before_file = flds,
      file_part = Some f, fields_after_file = Map.empty\<rparr>"

definition sample_project_fields :: "string \<rightharpoonup> string" where
  "sample_project_fields =
     [''projectTitle'' \<mapsto> ''Drone'', ''studentName'' \<mapsto> ''Ravi'', ''rollNo'' \<mapsto> ''21'',
      ''department'' \<mapsto> ''CSE'', ''year'' \<mapsto> ''2025'', ''description'' \<mapsto> ''Survey drone'']"

definition sample_content_fields :: "string \<rightharpoonup> string" where
  "sample_content_fields =
     [''title'' \<mapsto> ''Notes'', ''description'' \<mapsto> ''Week one'', ''category'' \<mapsto> ''curriculum'']"

definition secret_config :: config where
  "secret_config = \<lparr>ADMIN_PASSWORD = Some ''s3cret''\<rparr>"

definition unset_config :: config where
  "unset_config = \<lparr>ADMIN_PASSWORD = None\<rparr>"

section \<open>The access gate\<close>

lemmas sample_defs = sample_content_def sample_photo_def sample_sketch_def sample_project_def
  sample_world_def sample_project_fields_def sample_content_fields_def
  sample_external_def sample_pdf_def sample_zip_def bare_request_def file_request_def
  secret_config_def unset_config_def

lemma protected_upload_denied:
  "x_admin_password (express_req r) \<noteq> ADMIN_PASSWORD cfg \<Longrightarrow>
   protected_upload cfg ext r w h = (Response 401 (ErrorJson (Text ''Unauthorized'')), [], w)"
  by (simp add: protected_upload_def authenticate_def)

lemma protected_denied:
  "x_admin_password (express_req r) \<noteq> ADMIN_PASSWORD cfg \<Longrightarrow>
   protected cfg r w h = (Response 401 (ErrorJson (Text ''Unauthorized'')), [], w)"
  by (simp add: protected_def authenticate_def)

lemma app_denied:
  "mutating (route r) \<Longrightarrow> header_x_admin_password r \<noteq> ADMIN_PASSWORD cfg \<Longrightarrow>
   app cfg ext r w = (Response 401 (ErrorJson (Text ''Unauthorized'')), [], w)"
  by (cases "route r")
     (simp_all add: app_def mutating_def protected_upload_denied protected_denied express_req_def)

text \<open>
  C1, as amended. On each of the six mutating routes, a request whose
  \<open>x-admin-password\<close> header differs from the configured secret (an absent header and an
  unset secret both being \<open>undefined\<close>) is answered 401 \<open>{error: "Unauthorized"}\<close> with
  no effect at all: no upload, no database operation, the world unchanged. In particular
  a missing header is rejected whenever a secret is configured. The gate lets a request
  through exactly when header and secret are equal.
\<close>

theorem authenticate_rejects_unequal:
  assumes "mutating (route r)"
  shows "(header_x_admin_password r \<noteq> ADMIN_PASSWORD cfg \<longrightarrow>
            app cfg ext r w = (Response 401 (ErrorJson (Text ''Unauthorized'')), [], w))
       \<and> (ADMIN_PASSWORD cfg = Some s \<and> header_x_admin_password r = None \<longrightarrow>
            app cfg ext r w = (Response 401 (ErrorJson (Text ''Unauthorized'')), [], w))
       \<and> ((authenticate cfg (express_req r) = None) =
            (header_x_admin_password r = ADMIN_PASSWORD cfg))"
  using assms by (auto simp: app_denied authenticate_def express_req_def)

theorem authenticate_rejects_unequal_witness:
  "mutating (route (bare_request (DELETE_content 1) (Some ''guess'')))
   \<and> header_x_admin_password (bare_request (DELETE_content 1) (Some ''guess''))
       \<noteq> ADMIN_PASSWORD secret_config
   \<and> app secret_config sample_external (bare_request (DELETE_content 1) (Some ''guess''))
         sample_world
       = (Response 401 (ErrorJson (Text ''Unauthorized'')), [], sample_world)
   \<and> app secret_config sample_external (bare_request (DELETE_content 1) None) sample_world
       = (Response 401 (ErrorJson (Text ''Unauthorized'')), [], sample_world)"
  using authenticate_rejects_unequal
          [where r = "bare_request (DELETE_content 1) (Some ''guess'')" and cfg = secret_config
             and s = "''s3cret''" and ext = sample_external and w = sample_world]
        authenticate_rejects_unequal
          [where r = "bare_request (DELETE_content 1) None" and cfg = secret_config
             and s = "''s3cret''" and ext = sample_external and w = sample_world]
  by (simp add: bare_request_def secret_config_def mutating_def)

text \<open>
  C1 as stated fails: with no secret configured, a DELETE without the header is not
  answered 401; the record is looked up, its remote file is destroyed and it is deleted.
\<close>

theorem missing_header_unset_secret_deletes:
  "header_x_admin_password (bare_request (DELETE_content 1) None) = None
   \<and> mutating (route (bare_request (DELETE_content 1) None))
   \<and> app unset_config sample_external (bare_request (DELETE_content 1) None) sample_world
       = (Response 200 (MessageJson ''Content deleted successfully''),
          [DbFindById Content 1,
           CloudinaryDestroy ''portfolio/curriculum/syllabus'' ''raw'', ConsoleError,
           DbFindByIdAndDelete Content 1],
          sample_world\<lparr>contents := [(2, sample_photo), (3, sample_sketch)]\<rparr>)"
  by (simp add: sample_defs mutating_def app_def protected_def authenticate_def express_req_def
        delete_content_def findById_def deleteFromCloudinary_def getResourceType_def deleteOne_def)

text \<open>
  C9. When \<open>ADMIN_PASSWORD\<close> is undefined, a request without the \<open>x-admin-password\<close>
  header passes \<open>authenticate\<close> (both sides of \<open>===\<close> are undefined) and the protected
  handler runs; \<open>POST /api/verify-admin\<close> with no \<open>password\<close> field answers
  \<open>{valid: true}\<close>.
\<close>

theorem unset_secret_authorizes_missing_credential:
  assumes "ADMIN_PASSWORD cfg = None"
  shows "(header_x_admin_password r = None \<longrightarrow> authenticate cfg (express_req r) = None)
       \<and> (header_x_admin_password r = None \<longrightarrow> protected cfg r w h = h w)
       \<and> (route r = POST_verify_admin \<and> parsed_body r ''password'' = None \<longrightarrow>
            app cfg ext r w = (Response 200 (ValidJson True), [], w))"
  using assms
  by (simp add: authenticate_def express_req_def protected_def app_def verify_admin_def)

theorem unset_secret_authorizes_missing_credential_witness:
  "authenticate unset_config (express_req (bare_request (DELETE_project 1) None)) = None
   \<and> app unset_config sample_external (bare_request POST_verify_admin None) sample_world
       = (Response 200 (ValidJson True), [], sample_world)"
  using unset_secret_authorizes_missing_credential
          [where cfg = unset_config and r = "bare_request (DELETE_project 1) None"]
        unset_secret_authorizes_missing_credential
          [where cfg = unset_config and r = "bare_request POST_verify_admin None"
             and ext = sample_external and w = sample_world]
  by (simp add: bare_request_def unset_config_def parsed_body_def)

section \<open>Creating without a file\<close>

lemma upload_single_no_file: "upload_single ext rq None = (Next None, [])"
  by (simp add: upload_single_def)

lemma protected_upload_no_file:
  "header_x_admin_password r = ADMIN_PASSWORD cfg \<Longrightarrow> file_part r = None \<Longrightarrow>
   protected_upload cfg ext r w h =
     (case h ((express_req r)\<lparr>body := parsed_body r, uploaded := None\<rparr>) w of
        (resp, fx, w') \<Rightarrow> (resp, fx, w'))"
  by (simp add: protected_upload_def authenticate_def express_req_def upload_single_no_file)

text \<open>
  C7. A \<open>POST /api/content\<close> or \<open>POST /api/projects\<close> request that passes
  authentication and has no file part is answered 400 \<open>{error: "No file uploaded"}\<close>;
  nothing is uploaded or saved and the world is unchanged.
\<close>

theorem create_without_file_is_400:
  assumes "route r = POST_content \<or> route r = POST_project"
    and "header_x_admin_password r = ADMIN_PASSWORD cfg"
    and "file_part r = None"
  shows "app cfg ext r w = (Response 400 (ErrorJson (Text ''No file uploaded'')), [], w)"
  using assms
  by (auto simp: app_def protected_upload_no_file post_content_def post_project_def)

theorem create_without_file_is_400_witness:
  "app secret_config sample_external (bare_request POST_content (Some ''s3cret'')) sample_world
     = (Response 400 (ErrorJson (Text ''No file uploaded'')), [], sample_world)
   \<and> app secret_config sample_external (bare_request POST_project (Some ''s3cret'')) sample_world
     = (Response 400 (ErrorJson (Text ''No file uploaded'')), [], sample_world)"
  using create_without_file_is_400
          [of "bare_request POST_content (Some ''s3cret'')" secret_config
             sample_external sample_world]
        create_without_file_is_400
          [of "bare_request POST_project (Some ''s3cret'')" secret_config
             sample_external sample_world]
  by (simp add: bare_request_def secret_config_def)

section \<open>File validation\<close>

lemma set_allowedTypes:
  "set allowedTypes =
     {''image/jpeg'', ''image/png'', ''image/gif'', ''video/mp4'', ''video/webm'',
      ''application/pdf'', ''application/msword'',
      ''application/vnd.openxmlformats-officedocument.wordprocessingml.document''}"
  by (simp add: allowedTypes_def)

lemma upload_single_rejected_type:
  "mimetype f \<notin> set allowedTypes \<Longrightarrow>
   upload_single ext rq (Some f) =
     (Next_error \<lparr>err_status = None,
                  err_message = Text
                    ''Invalid file type. Only images, videos, PDFs, and Word documents are allowed.''\<rparr>,
      [])"
  by (simp add: upload_single_def fileFilter_def)

lemma upload_single_accepts:
  "upload_result ext = Inr (url, pid) \<Longrightarrow>
   (\<exists>f'. fst (upload_single ext rq (Some f)) = Next (Some f')) =
   (mimetype f \<in> set allowedTypes \<and> bytes f < fileSize)"
  by (auto simp: upload_single_def fileFilter_def Let_def)

text \<open>
  C5, as amended. Provided the remote store answers the upload, \<open>upload.single('file')\<close>
  hands a file on to the handler if and only if its MIME type is one of the eight listed
  types and its size is less than 50 MB (\<open>50 * 1024 * 1024\<close> bytes). A file of any
  other MIME type ends the request with an error and with no effect: the remote store is
  not called.
\<close>

theorem upload_accepts_iff_type_and_size_below_limit:
  "(upload_result ext = Inr (url, pid) \<longrightarrow>
      (\<exists>f'. fst (upload_single ext rq (Some f)) = Next (Some f')) =
      (mimetype f \<in>
         {''image/jpeg'', ''image/png'', ''image/gif'', ''video/mp4'', ''video/webm'',
          ''application/pdf'', ''application/msword'',
          ''application/vnd.openxmlformats-officedocument.wordprocessingml.document''}
       \<and> bytes f < 50 * 1024 * 1024))
   \<and> (mimetype f \<notin>
         {''image/jpeg'', ''image/png'', ''image/gif'', ''video/mp4'', ''video/webm'',
          ''application/pdf'', ''application/msword'',
          ''application/vnd.openxmlformats-officedocument.wordprocessingml.document''} \<longrightarrow>
       (\<exists>e. upload_single ext rq (Some f) = (Next_error e, [])))"
proof -
  have "fileSize = 50 * 1024 * 1024" by (simp add: fileSize_def)
  then show ?thesis
    using upload_single_accepts [of ext url pid rq f] upload_single_rejected_type [of f ext rq]
    unfolding set_allowedTypes by auto
qed

theorem upload_accepts_iff_type_and_size_below_limit_witness:
  "upload_result sample_external = Inr (''https://media.example/new.pdf'', ''portfolio/new'')
   \<and> (\<exists>f'. fst (upload_single sample_external (express_req (bare_request POST_content None))
                (Some sample_pdf)) = Next (Some f'))
   \<and> (\<exists>f'. fst (upload_single sample_external (express_req (bare_request POST_content None))
                (Some \<lparr>mimetype = ''image/png'', bytes = 50 * 1024 * 1024 - 1\<rparr>))
              = Next (Some f'))
   \<and> (\<exists>e. upload_single sample_external (express_req (bare_request POST_content None))
              (Some sample_zip) = (Next_error e, []))"
  using upload_accepts_iff_type_and_size_below_limit
          [of sample_external "''https://media.example/new.pdf''" "''portfolio/new''"
             "express_req (bare_request POST_content None)" sample_pdf]
        upload_accepts_iff_type_and_size_below_limit
          [of sample_external "''https://media.example/new.pdf''" "''portfolio/new''"
             "express_req (bare_request POST_content None)"
             "\<lparr>mimetype = ''image/png'', bytes = 50 * 1024 * 1024 - 1\<rparr>"]
        upload_accepts_iff_type_and_size_below_limit
          [of sample_external "''https://media.example/new.pdf''" "''portfolio/new''"
             "express_req (bare_request POST_content None)" sample_zip]
  by (simp add: sample_external_def sample_pdf_def sample_zip_def)

text \<open>
  C5 as stated fails at the boundary: a PNG file of exactly \<open>50 * 1024 * 1024\<close> bytes
  has a listed MIME type and does not exceed 50 MB, yet it is refused with
  \<open>File too large\<close>, after it has gone to the remote store and been taken back.
\<close>

theorem file_of_exactly_50MB_is_refused:
  "upload_single sample_external (express_req (bare_request POST_content None))
     (Some \<lparr>mimetype = ''image/png'', bytes = 50 * 1024 * 1024\<rparr>)
   = (Next_error \<lparr>err_status = None, err_message = Text ''File too large''\<rparr>,
      [CloudinaryUpload ''portfolio'' ''image'', CloudinaryRemoveFile (Some ''portfolio/new'')])"
  by (simp add: sample_external_def bare_request_def express_req_def upload_single_def
        fileFilter_def allowedTypes_def params_def fileSize_def Let_def)

section \<open>Destination folder\<close>

lemma startsWith_Nil [simp]: "startsWith [] p = (p = [])"
  by (cases p) simp_all

lemma params_never_projects:
  "folder (params (express_req r) f) \<noteq> ''portfolio/projects''"
  by (simp add: params_def express_req_def)

text \<open>
  C3 does not hold of the code: \<open>params\<close> tests \<open>req.baseUrl\<close>, which is empty on
  every route of this application, so the \<open>projects\<close> branch is never taken. An
  authorized \<open>POST /api/projects\<close> with a PDF is uploaded to the generic folder
  \<open>portfolio\<close>, not to \<open>portfolio/projects\<close>.
\<close>

theorem project_upload_goes_to_generic_folder:
  "fst (snd (app secret_config sample_external
               (file_request POST_project (Some ''s3cret'') sample_project_fields sample_pdf)
               sample_world))
     = [CloudinaryUpload ''portfolio'' ''raw'', DbSave Project 2]"
  by (simp add: sample_defs app_def protected_upload_def authenticate_def
        express_req_def upload_single_def fileFilter_def allowedTypes_def params_def fileSize_def
        post_project_def Date_now_def parsed_body_def path_value_def validate_def
        project_paths_def required_failures_def new_id_def insertOne_def Let_def)

section \<open>Listing by category\<close>

lemma sorted_newest_first:
  "sorted_wrt (\<lambda>a b. content.createdAt (snd b) \<le> content.createdAt (snd a))
     (sort_key (\<lambda>d. - int (content.createdAt (snd d))) docs)"
proof -
  have "sorted (map (\<lambda>d. - int (content.createdAt (snd d)))
                  (sort_key (\<lambda>d. - int (content.createdAt (snd d))) docs))"
    by (rule sorted_sort_key)
  then show ?thesis by (simp add: sorted_map)
qed

text \<open>
  C8. \<open>GET /api/content/:category\<close> answers with exactly the stored content records
  whose category equals the requested one (as a multiset: each such record once per
  stored copy, and no record of another category), ordered by \<open>createdAt\<close> descending;
  the world is unchanged.
\<close>

theorem list_by_category_exact_and_newest_first:
  assumes "route r = GET_content_category cat"
  shows "\<exists>docs. app cfg ext r w = (Response 200 (ContentsJson docs), [DbFind Content], w)
           \<and> mset docs = filter_mset (\<lambda>d. category (snd d) = cat) (mset (contents w))
           \<and> (\<forall>d \<in> set docs. category (snd d) = cat)
           \<and> sorted_wrt (\<lambda>a b. content.createdAt (snd b) \<le> content.createdAt (snd a)) docs"
  using assms by (simp add: app_def get_content_by_category_def sorted_newest_first)

theorem list_by_category_exact_and_newest_first_witness:
  "route (bare_request (GET_content_category ''hobbies'') None) = GET_content_category ''hobbies''
   \<and> app unset_config sample_external (bare_request (GET_content_category ''hobbies'') None)
         sample_world
       = (Response 200 (ContentsJson [(3, sample_sketch), (2, sample_photo)]),
          [DbFind Content], sample_world)"
  using list_by_category_exact_and_newest_first
          [of "bare_request (GET_content_category ''hobbies'') None" "''hobbies''"
             unset_config sample_external sample_world]
  by (simp add: sample_defs app_def get_content_by_category_def)

section \<open>Creating with a missing text field\<close>

lemma validate_missing:
  assumes "(n, []) \<in> set paths"
  shows "\<exists>ms. validate model paths
                = Some \<lparr>err_status = None, err_message = ValidationFailed model ms\<rparr>
              \<and> n \<in> set ms"
proof -
  from assms have "n \<in> set (required_failures paths)"
    by (force simp: required_failures_def)
  then show ?thesis
    by (cases "required_failures paths") (auto simp: validate_def)
qed

lemma protected_upload_accepted:
  assumes "header_x_admin_password r = ADMIN_PASSWORD cfg"
    and "upload_single ext (express_req r) (file_part r) = (Next f, ufx)"
  shows "protected_upload cfg ext r w h =
           (case h ((express_req r)\<lparr>body := parsed_body r, uploaded := f\<rparr>) w of
              (resp, fx, w') \<Rightarrow> (resp, ufx @ fx, w'))"
  using assms by (simp add: protected_upload_def authenticate_def express_req_def)

lemma post_content_missing:
  assumes "uploaded rq = Some f" and "body rq k = None"
    and "k \<in> {''title'', ''description'', ''category''}"
  shows "\<exists>ms w'. post_content ext rq w
                  = (Response 500 (ErrorJson (ValidationFailed ''Content'' ms)), [], w')
               \<and> k \<in> set ms \<and> contents w' = contents w \<and> projects w' = projects w"
proof -
  let ?doc = "\<lparr>title = path_value (body rq ''title''),
      content.description = path_value (body rq ''description''),
      content.fileUrl = path f, content.fileType = mimetype f, content.publicId = filename f,
      category = path_value (body rq ''category''),
      content.createdAt = clock w + elapsed_first ext,
      content.updatedAt = clock w + elapsed_first ext + elapsed_second ext\<rparr>"
  from assms(3,2) have "(k, []) \<in> set (content_paths ?doc)"
    by (elim insertE emptyE; simp add: content_paths_def path_value_def)
  from validate_missing [OF this, of "''Content''"] obtain ms where
    v: "validate ''Content'' (content_paths ?doc)
       = Some \<lparr>err_status = None, err_message = ValidationFailed ''Content'' ms\<rparr>"
    and k: "k \<in> set ms"
    by (elim exE conjE)
  have "post_content ext rq w
          = (Response 500 (ErrorJson (ValidationFailed ''Content'' ms)), [],
             w\<lparr>clock := clock w + elapsed_first ext + elapsed_second ext\<rparr>)"
    using assms(1) by (simp add: post_content_def Date_now_def Let_def v)
  with k show ?thesis by simp
qed

lemma post_project_missing:
  assumes "uploaded rq = Some f" and "body rq k = None"
    and "k \<in> {''projectTitle'', ''studentName'', ''rollNo'', ''department'', ''year'',
               ''description''}"
  shows "\<exists>ms w'. post_project ext rq w
                  = (Response 500 (ErrorJson (ValidationFailed ''Project'' ms)), [], w')
               \<and> k \<in> set ms \<and> contents w' = contents w \<and> projects w' = projects w"
proof -
  let ?doc = "\<lparr>projectTitle = path_value (body rq ''projectTitle''),
      studentName = path_value (body rq ''studentName''),
      rollNo = path_value (body rq ''rollNo''),
      department = path_value (body rq ''department''),
      year = path_value (body rq ''year''),
      project.description = path_value (body rq ''description''),
      project.fileUrl = path f, project.fileType = mimetype f, project.publicId = filename f,
      project.createdAt = clock w + elapsed_first ext,
      project.updatedAt = clock w + elapsed_first ext + elapsed_second ext\<rparr>"
  from assms(3,2) have "(k, []) \<in> set (project_paths ?doc)"
    by (elim insertE emptyE; simp add: project_paths_def path_value_def)
  from validate_missing [OF this, of "''Project''"] obtain ms where
    v: "validate ''Project'' (project_paths ?doc)
       = Some \<lparr>err_status = None, err_message = ValidationFailed ''Project'' ms\<rparr>"
    and k: "k \<in> set ms"
    by (elim exE conjE)
  have "post_project ext rq w
          = (Response 500 (ErrorJson (ValidationFailed ''Project'' ms)), [],
             w\<lparr>clock := clock w + elapsed_first ext + elapsed_second ext\<rparr>)"
    using assms(1) by (simp add: post_project_def Date_now_def Let_def v)
  with k show ?thesis by simp
qed

text \<open>
  C10. A create request that passes authentication and whose file is accepted, but whose
  body lacks one of the text fields the schema requires (title, description or category
  for Content; projectTitle, studentName, rollNo, department, year or description for
  Project), reaches \<open>save\<close>, fails validation there and is answered 500 with the
  validation error's message, which names the missing path. It is not answered 400: the
  handler has no presence check for text fields. No record is persisted in either
  collection; the only effect is the upload already made.
\<close>

theorem create_with_missing_field_is_500:
  assumes "header_x_admin_password r = ADMIN_PASSWORD cfg"
    and "upload_single ext (express_req r) (file_part r) = (Next (Some f), ufx)"
    and "parsed_body r k = None"
    and "(route r = POST_content \<and> model = ''Content''
            \<and> k \<in> {''title'', ''description'', ''category''})
       \<or> (route r = POST_project \<and> model = ''Project''
            \<and> k \<in> {''projectTitle'', ''studentName'', ''rollNo'', ''department'', ''year'',
                     ''description''})"
  shows "\<exists>ms w'. app cfg ext r w
                  = (Response 500 (ErrorJson (ValidationFailed model ms)), ufx, w')
               \<and> k \<in> set ms \<and> contents w' = contents w \<and> projects w' = projects w"
  using assms(4)
proof (elim disjE conjE)
  let ?rq = "(express_req r)\<lparr>body := parsed_body r, uploaded := Some f\<rparr>"
  assume rt: "route r = POST_content" and m: "model = ''Content''"
    and k: "k \<in> {''title'', ''description'', ''category''}"
  have "uploaded ?rq = Some f" and "body ?rq k = None"
    using assms(3) by simp_all
  from post_content_missing [OF this k, of ext w] obtain ms w' where
    "post_content ext ?rq w = (Response 500 (ErrorJson (ValidationFailed ''Content'' ms)), [], w')"
    "k \<in> set ms" "contents w' = contents w" "projects w' = projects w"
    by (elim exE conjE)
  then show ?thesis
    using rt m by (simp add: app_def protected_upload_accepted [OF assms(1,2)])
next
  let ?rq = "(express_req r)\<lparr>body := parsed_body r, uploaded := Some f\<rparr>"
  assume rt: "route r = POST_project" and m: "model = ''Project''"
    and k: "k \<in> {''projectTitle'', ''studentName'', ''rollNo'', ''department'', ''year'',
                  ''description''}"
  have "uploaded ?rq = Some f" and "body ?rq k = None"
    using assms(3) by simp_all
  from post_project_missing [OF this k, of ext w] obtain ms w' where
    "post_project ext ?rq w = (Response 500 (ErrorJson (ValidationFailed ''Project'' ms)), [], w')"
    "k \<in> set ms" "contents w' = contents w" "projects w' = projects w"
    by (elim exE conjE)
  then show ?thesis
    using rt m by (simp add: app_def protected_upload_accepted [OF assms(1,2)])
qed

theorem create_with_missing_field_is_500_witness:
  "header_x_admin_password
      (file_request POST_content (Some ''s3cret'')
         [''title'' \<mapsto> ''Notes'', ''category'' \<mapsto> ''curriculum''] sample_pdf)
     = ADMIN_PASSWORD secret_config
   \<and> parsed_body
        (file_request POST_content (Some ''s3cret'')
           [''title'' \<mapsto> ''Notes'', ''category'' \<mapsto> ''curriculum''] sample_pdf)
        ''description'' = None
   \<and> app secret_config sample_external
     (file_request POST_content (Some ''s3cret'') [''title'' \<mapsto> ''Notes'', ''category'' \<mapsto> ''curriculum'']
        sample_pdf) sample_world
   = (Response 500 (ErrorJson (ValidationFailed ''Content'' [''description''])),
      [CloudinaryUpload ''portfolio/curriculum'' ''raw''],
      sample_world\<lparr>clock := 26\<rparr>)"
  using create_with_missing_field_is_500 [where r = "file_request POST_content (Some ''s3cret'')
                          [''title'' \<mapsto> ''Notes'', ''category'' \<mapsto> ''curriculum''] sample_pdf"
               and cfg = secret_config and ext = sample_external and k = "''description''"
               and model = "''Content''" and w = sample_world]
  by (simp add: sample_defs app_def protected_upload_def authenticate_def
        express_req_def upload_single_def fileFilter_def allowedTypes_def params_def fileSize_def
        post_content_def Date_now_def parsed_body_def path_value_def validate_def
        content_paths_def required_failures_def new_id_def insertOne_def Let_def)

section \<open>Updating a record\<close>

lemma findById_replaceOne:
  "findById (replaceOne i d docs) j =
     (if j = i then map_option (\<lambda>e. d) (findById docs i) else findById docs j)"
  by (induction docs) (auto simp: findById_def replaceOne_def)

lemma findById_deleteOne:
  "findById (deleteOne i docs) j = (if j = i then None else findById docs j)"
  by (induction docs) (auto simp: findById_def deleteOne_def)

lemma destroy_calls_append: "destroy_calls (xs @ ys) = destroy_calls xs @ destroy_calls ys"
  by (induction xs rule: destroy_calls.induct) simp_all

lemma destroy_calls_deleteFromCloudinary:
  "destroy_calls (deleteFromCloudinary ext pid rtype) = [(pid, rtype)]"
  by (simp add: deleteFromCloudinary_def)

lemma upload_single_effects:
  assumes "upload_single ext rq part = (Next f, ufx)"
  shows "destroy_calls ufx = [] \<and> \<not> list_ex is_save ufx"
  using assms
  by (auto simp: upload_single_def Let_def split: option.splits sum.splits if_splits prod.splits)

lemma put_content_no_file:
  assumes "uploaded rq = None" and "findById (contents w) i = Some c"
    and "put_content ext rq i w = (resp, fx, w')"
  shows "\<exists>c'. findById (contents w') i = Some c'
             \<and> content.fileUrl c' = content.fileUrl c
             \<and> content.fileType c' = content.fileType c
             \<and> content.publicId c' = content.publicId c"
    and "destroy_calls fx = []"
  using assms
  by (auto simp: put_content_def Date_now_def Let_def findById_replaceOne split: option.splits)

lemma put_content_with_file:
  assumes "uploaded rq = Some f" and "findById (contents w) i = Some c"
    and "put_content ext rq i w = (resp, fx, w')"
  shows "\<exists>l rest. fx = DbFindById Content i
                      # CloudinaryDestroy (content.publicId c) (getResourceType (content.fileType c))
                      # l # rest
                 \<and> (l = ConsoleLog \<or> l = ConsoleError)
                 \<and> (rest = [] \<or> rest = [DbSave Content i])"
    and "destroy_calls fx = [(content.publicId c, getResourceType (content.fileType c))]"
    and "list_ex is_save fx \<longrightarrow>
           (\<exists>c'. findById (contents w') i = Some c'
              \<and> content.fileUrl c' = path f \<and> content.fileType c' = mimetype f
              \<and> content.publicId c' = filename f)"
  using assms
  by (auto simp: put_content_def Date_now_def Let_def findById_replaceOne deleteFromCloudinary_def
           split: option.splits if_splits)

lemma put_project_no_file:
  assumes "uploaded rq = None" and "findById (projects w) i = Some p"
    and "put_project ext rq i w = (resp, fx, w')"
  shows "\<exists>p'. findById (projects w') i = Some p'
             \<and> project.fileUrl p' = project.fileUrl p
             \<and> project.fileType p' = project.fileType p
             \<and> project.publicId p' = project.publicId p"
    and "destroy_calls fx = []"
  using assms
  by (auto simp: put_project_def Date_now_def Let_def findById_replaceOne split: option.splits)

lemma put_project_with_file:
  assumes "uploaded rq = Some f" and "findById (projects w) i = Some p"
    and "put_project ext rq i w = (resp, fx, w')"
  shows "\<exists>l rest. fx = DbFindById Project i
                      # CloudinaryDestroy (project.publicId p) (getResourceType (project.fileType p))
                      # l # rest
                 \<and> (l = ConsoleLog \<or> l = ConsoleError)
                 \<and> (rest = [] \<or> rest = [DbSave Project i])"
    and "destroy_calls fx = [(project.publicId p, getResourceType (project.fileType p))]"
    and "list_ex is_save fx \<longrightarrow>
           (\<exists>p'. findById (projects w') i = Some p'
              \<and> project.fileUrl p' = path f \<and> project.fileType p' = mimetype f
              \<and> project.publicId p' = filename f)"
  using assms
  by (auto simp: put_project_def Date_now_def Let_def findById_replaceOne deleteFromCloudinary_def
           split: option.splits if_splits)

lemma protected_upload_no_file_cases:
  assumes "file_part r = None" and "protected_upload cfg ext r w h = (resp, fx, w')"
  shows "(fx = [] \<and> w' = w)
       \<or> h ((express_req r)\<lparr>body := parsed_body r, uploaded := None\<rparr>) w = (resp, fx, w')"
proof (cases "header_x_admin_password r = ADMIN_PASSWORD cfg")
  case True
  from protected_upload_no_file [OF True assms(1), of ext w h] assms(2)
  show ?thesis by (simp split: prod.splits)
next
  case False
  then have "x_admin_password (express_req r) \<noteq> ADMIN_PASSWORD cfg"
    by (simp add: express_req_def)
  from protected_upload_denied [OF this, of ext w h] assms(2)
  show ?thesis by simp
qed

lemma protected_upload_accepted_result:
  assumes "header_x_admin_password r = ADMIN_PASSWORD cfg"
    and "upload_single ext (express_req r) (file_part r) = (Next f, ufx)"
    and "protected_upload cfg ext r w h = (resp, fx, w')"
  shows "\<exists>hfx. h ((express_req r)\<lparr>body := parsed_body r, uploaded := f\<rparr>) w = (resp, hfx, w')
             \<and> fx = ufx @ hfx"
  using protected_upload_accepted [OF assms(1,2), of w h] assms(3)
  by (simp split: prod.splits)

lemma update_content_without_file:
  assumes "route r = PUT_content i" and "file_part r = None"
    and "findById (contents w) i = Some c" and "app cfg ext r w = (resp, fx, w')"
  shows "(\<exists>c'. findById (contents w') i = Some c'
             \<and> content.fileUrl c' = content.fileUrl c
             \<and> content.fileType c' = content.fileType c
             \<and> content.publicId c' = content.publicId c)
       \<and> destroy_calls fx = []"
proof -
  from assms(1,4) have "protected_upload cfg ext r w (\<lambda>rq. put_content ext rq i) = (resp, fx, w')"
    by (simp add: app_def)
  from protected_upload_no_file_cases [OF assms(2) this]
  show ?thesis
  proof
    assume "fx = [] \<and> w' = w"
    with assms(3) show ?thesis by simp
  next
    assume "put_content ext ((express_req r)\<lparr>body := parsed_body r, uploaded := None\<rparr>) i w
              = (resp, fx, w')"
    from put_content_no_file [OF _ assms(3) this] show ?thesis by simp
  qed
qed

lemma update_project_without_file:
  assumes "route r = PUT_project i" and "file_part r = None"
    and "findById (projects w) i = Some p" and "app cfg ext r w = (resp, fx, w')"
  shows "(\<exists>p'. findById (projects w') i = Some p'
             \<and> project.fileUrl p' = project.fileUrl p
             \<and> project.fileType p' = project.fileType p
             \<and> project.publicId p' = project.publicId p)
       \<and> destroy_calls fx = []"
proof -
  from assms(1,4) have "protected_upload cfg ext r w (\<lambda>rq. put_project ext rq i) = (resp, fx, w')"
    by (simp add: app_def)
  from protected_upload_no_file_cases [OF assms(2) this]
  show ?thesis
  proof
    assume "fx = [] \<and> w' = w"
    with assms(3) show ?thesis by simp
  next
    assume "put_project ext ((express_req r)\<lparr>body := parsed_body r, uploaded := None\<rparr>) i w
              = (resp, fx, w')"
    from put_project_no_file [OF _ assms(3) this] show ?thesis by simp
  qed
qed

lemma update_content_with_file:
  assumes "route r = PUT_content i" and "header_x_admin_password r = ADMIN_PASSWORD cfg"
    and "upload_single ext (express_req r) (file_part r) = (Next (Some f), ufx)"
    and "findById (contents w) i = Some c" and "app cfg ext r w = (resp, fx, w')"
  shows "destroy_calls fx = [(content.publicId c, getResourceType (content.fileType c))]
       \<and> (\<exists>l rest. fx = ufx @ DbFindById Content i
                           # CloudinaryDestroy (content.publicId c)
                               (getResourceType (content.fileType c))
                           # l # rest
                  \<and> \<not> list_ex is_save ufx
                  \<and> (l = ConsoleLog \<or> l = ConsoleError)
                  \<and> (rest = [] \<or> rest = [DbSave Content i]))
       \<and> (list_ex is_save fx \<longrightarrow>
            (\<exists>c'. findById (contents w') i = Some c'
               \<and> content.fileUrl c' = path f \<and> content.fileType c' = mimetype f
               \<and> content.publicId c' = filename f))"
proof -
  from assms(1,5) have "protected_upload cfg ext r w (\<lambda>rq. put_content ext rq i) = (resp, fx, w')"
    by (simp add: app_def)
  from protected_upload_accepted_result [OF assms(2,3) this] obtain hfx where
    h: "put_content ext ((express_req r)\<lparr>body := parsed_body r, uploaded := Some f\<rparr>) i w
          = (resp, hfx, w')"
    and fx: "fx = ufx @ hfx"
    by (elim exE conjE)
  note u = upload_single_effects [OF assms(3)]
  from put_content_with_file [OF _ assms(4) h, of f] u fx
  show ?thesis
    by (simp add: destroy_calls_append)
qed

lemma update_project_with_file:
  assumes "route r = PUT_project i" and "header_x_admin_password r = ADMIN_PASSWORD cfg"
    and "upload_single ext (express_req r) (file_part r) = (Next (Some f), ufx)"
    and "findById (projects w) i = Some p" and "app cfg ext r w = (resp, fx, w')"
  shows "destroy_calls fx = [(project.publicId p, getResourceType (project.fileType p))]
       \<and> (\<exists>l rest. fx = ufx @ DbFindById Project i
                           # CloudinaryDestroy (project.publicId p)
                               (getResourceType (project.fileType p))
                           # l # rest
                  \<and> \<not> list_ex is_save ufx
                  \<and> (l = ConsoleLog \<or> l = ConsoleError)
                  \<and> (rest = [] \<or> rest = [DbSave Project i]))
       \<and> (list_ex is_save fx \<longrightarrow>
            (\<exists>p'. findById (projects w') i = Some p'
               \<and> project.fileUrl p' = path f \<and> project.fileType p' = mimetype f
               \<and> project.publicId p' = filename f))"
proof -
  from assms(1,5) have "protected_upload cfg ext r w (\<lambda>rq. put_project ext rq i) = (resp, fx, w')"
    by (simp add: app_def)
  from protected_upload_accepted_result [OF assms(2,3) this] obtain hfx where
    h: "put_project ext ((express_req r)\<lparr>body := parsed_body r, uploaded := Some f\<rparr>) i w
          = (resp, hfx, w')"
    and fx: "fx = ufx @ hfx"
    by (elim exE conjE)
  note u = upload_single_effects [OF assms(3)]
  from put_project_with_file [OF _ assms(4) h, of f] u fx
  show ?thesis
    by (simp add: destroy_calls_append)
qed

text \<open>
  C2. An update of an existing record (\<open>PUT /api/content/:id\<close> or
  \<open>PUT /api/projects/:id\<close>) whose request has no file part leaves the record's
  \<open>fileUrl\<close>, \<open>fileType\<close> and \<open>publicId\<close> as they were and never calls the remote
  delete. An authorized update whose file reaches the handler calls the remote delete
  exactly once, with the record's previous \<open>publicId\<close>, after the lookup and before any
  save; when the save happens, the stored record carries the new file's reference.
\<close>

theorem update_keeps_or_replaces_file_reference:
  assumes "app cfg ext r w = (resp, fx, w')"
  shows "(route r = PUT_content i \<and> file_part r = None \<and> findById (contents w) i = Some c \<longrightarrow>
            (\<exists>c'. findById (contents w') i = Some c'
               \<and> content.fileUrl c' = content.fileUrl c
               \<and> content.fileType c' = content.fileType c
               \<and> content.publicId c' = content.publicId c)
            \<and> destroy_calls fx = [])
       \<and> (route r = PUT_project i \<and> file_part r = None \<and> findById (projects w) i = Some p \<longrightarrow>
            (\<exists>p'. findById (projects w') i = Some p'
               \<and> project.fileUrl p' = project.fileUrl p
               \<and> project.fileType p' = project.fileType p
               \<and> project.publicId p' = project.publicId p)
            \<and> destroy_calls fx = [])
       \<and> (route r = PUT_content i \<and> header_x_admin_password r = ADMIN_PASSWORD cfg
            \<and> upload_single ext (express_req r) (file_part r) = (Next (Some f), ufx)
            \<and> findById (contents w) i = Some c \<longrightarrow>
            destroy_calls fx = [(content.publicId c, getResourceType (content.fileType c))]
            \<and> (\<exists>l rest. fx = ufx @ DbFindById Content i
                                # CloudinaryDestroy (content.publicId c)
                                    (getResourceType (content.fileType c))
                                # l # rest
                       \<and> \<not> list_ex is_save ufx
                       \<and> (l = ConsoleLog \<or> l = ConsoleError)
                       \<and> (rest = [] \<or> rest = [DbSave Content i]))
            \<and> (list_ex is_save fx \<longrightarrow>
                 (\<exists>c'. findById (contents w') i = Some c'
                    \<and> content.fileUrl c' = path f \<and> content.fileType c' = mimetype f
                    \<and> content.publicId c' = filename f)))
       \<and> (route r = PUT_project i \<and> header_x_admin_password r = ADMIN_PASSWORD cfg
            \<and> upload_single ext (express_req r) (file_part r) = (Next (Some f), ufx)
            \<and> findById (projects w) i = Some p \<longrightarrow>
            destroy_calls fx = [(project.publicId p, getResourceType (project.fileType p))]
            \<and> (\<exists>l rest. fx = ufx @ DbFindById Project i
                                # CloudinaryDestroy (project.publicId p)
                                    (getResourceType (project.fileType p))
                                # l # rest
                       \<and> \<not> list_ex is_save ufx
                       \<and> (l = ConsoleLog \<or> l = ConsoleError)
                       \<and> (rest = [] \<or> rest = [DbSave Project i]))
            \<and> (list_ex is_save fx \<longrightarrow>
                 (\<exists>p'. findById (projects w') i = Some p'
                    \<and> project.fileUrl p' = path f \<and> project.fileType p' = mimetype f
                    \<and> project.publicId p' = filename f)))"
    (is "?A \<and> ?B \<and> ?C \<and> ?D")
proof -
  have ?A
    using update_content_without_file [of r i w c cfg ext resp fx w'] assms by blast
  moreover have ?B
    using update_project_without_file [of r i w p cfg ext resp fx w'] assms by blast
  moreover have ?C
    using update_content_with_file [of r i cfg ext f ufx w c resp fx w'] assms by blast
  moreover have ?D
    using update_project_with_file [of r i cfg ext f ufx w p resp fx w'] assms by blast
  ultimately show ?thesis by (intro conjI)
qed

theorem update_keeps_or_replaces_file_reference_witness:
  "file_part ((bare_request (PUT_content 1) (Some ''s3cret''))
                \<lparr>fields_before_file := [''description'' \<mapsto> ''Second term'']\<rparr>) = None
   \<and> findById (contents sample_world) 1 = Some sample_content
   \<and> app secret_config sample_external
       ((bare_request (PUT_content 1) (Some ''s3cret''))
          \<lparr>fields_before_file := [''description'' \<mapsto> ''Second term'']\<rparr>) sample_world
     = (Response 200
          (ContentJson 1
             (sample_content\<lparr>content.description := ''Second term'', content.updatedAt := 25\<rparr>)),
        [DbFindById Content 1, DbSave Content 1],
        sample_world
          \<lparr>contents :=
             [(1, sample_content\<lparr>content.description := ''Second term'',
                                  content.updatedAt := 25\<rparr>),
              (2, sample_photo), (3, sample_sketch)],
           clock := 25\<rparr>)
   \<and> upload_single sample_external
         (express_req (file_request (PUT_project 1) (Some ''s3cret'') Map.empty sample_pdf))
         (Some sample_pdf)
     = (Next (Some \<lparr>mimetype = ''application/pdf'', bytes = 10240,
                     path = ''https://media.example/new.pdf'', filename = ''portfolio/new''\<rparr>),
        [CloudinaryUpload ''portfolio'' ''raw''])
   \<and> findById (projects sample_world) 1 = Some sample_project
   \<and> app secret_config sample_external
       (file_request (PUT_project 1) (Some ''s3cret'') Map.empty sample_pdf) sample_world
     = (Response 200
          (ProjectJson 1
             (sample_project
                \<lparr>project.fileUrl := ''https://media.example/new.pdf'',
                 project.fileType := ''application/pdf'',
                 project.publicId := ''portfolio/new'', project.updatedAt := 25\<rparr>)),
        [CloudinaryUpload ''portfolio'' ''raw'', DbFindById Project 1,
         CloudinaryDestroy ''portfolio/robot'' ''video'', ConsoleError, DbSave Project 1],
        sample_world
          \<lparr>projects :=
             [(1, sample_project
                    \<lparr>project.fileUrl := ''https://media.example/new.pdf'',
                     project.fileType := ''application/pdf'',
                     project.publicId := ''portfolio/new'', project.updatedAt := 25\<rparr>)],
           clock := 25\<rparr>)"
  (is "?h1 \<and> ?h2 \<and> ?e1 \<and> ?h3 \<and> ?h4 \<and> ?e2")
proof -
  let ?out1 = "app secret_config sample_external
                 ((bare_request (PUT_content 1) (Some ''s3cret''))
                    \<lparr>fields_before_file := [''description'' \<mapsto> ''Second term'']\<rparr>)
                 sample_world"
  let ?out2 = "app secret_config sample_external
                 (file_request (PUT_project 1) (Some ''s3cret'') Map.empty sample_pdf)
                 sample_world"
  have "?out1 = (fst ?out1, fst (snd ?out1), snd (snd ?out1))"
    and "?out2 = (fst ?out2, fst (snd ?out2), snd (snd ?out2))"
    by simp_all
  note update_keeps_or_replaces_file_reference
         [OF this(1), where i = 1 and c = sample_content]
       update_keeps_or_replaces_file_reference
         [OF this(2), where i = 1 and p = sample_project]
  then have ?e1 and ?e2
    by (simp_all add: sample_defs app_def protected_upload_def authenticate_def
          express_req_def upload_single_def fileFilter_def allowedTypes_def params_def
          fileSize_def put_content_def put_project_def Date_now_def parsed_body_def js_or_def
          validate_def content_paths_def project_paths_def required_failures_def findById_def
          replaceOne_def deleteFromCloudinary_def getResourceType_def Let_def)
  moreover have ?h1 and ?h2 and ?h3 and ?h4
    by (simp_all add: sample_defs express_req_def upload_single_def fileFilter_def
          allowedTypes_def params_def fileSize_def findById_def Let_def)
  ultimately show ?thesis by (intro conjI)
qed

section \<open>Failure of the remote delete\<close>

lemma upload_single_Some:
  assumes "upload_single ext rq part = (Next (Some f), ufx)"
  shows "mimetype f \<in> set allowedTypes \<and> upload_result ext = Inr (path f, filename f)"
  using assms
  by (auto simp: upload_single_def fileFilter_def Let_def
           split: option.splits sum.splits if_splits prod.splits)

lemma allowedTypes_nonempty: "t \<in> set allowedTypes \<Longrightarrow> t \<noteq> []"
  by (auto simp: allowedTypes_def)

lemma js_or_nonempty: "b \<noteq> [] \<Longrightarrow> js_or a b \<noteq> []"
  by (simp add: js_or_def split: option.splits)

lemma validate_None_iff: "(validate model paths = None) = (\<forall>p \<in> set paths. snd p \<noteq> [])"
proof -
  have "(required_failures paths = []) = (\<forall>p \<in> set paths. snd p \<noteq> [])"
    by (induction paths) (auto simp: required_failures_def)
  then show ?thesis
    by (cases "required_failures paths") (simp_all add: validate_def)
qed

lemma put_content_valid:
  assumes "uploaded rq = Some f" and "findById (contents w) i = Some c"
    and "validate ''Content'' (content_paths c) = None"
    and "path f \<noteq> []" and "mimetype f \<noteq> []" and "filename f \<noteq> []"
  shows "\<exists>c' w'. put_content ext rq i w
                  = (Response 200 (ContentJson i c'),
                     [DbFindById Content i,
                      CloudinaryDestroy (content.publicId c) (getResourceType (content.fileType c)),
                      if destroy_fails ext then ConsoleError else ConsoleLog,
                      DbSave Content i], w')
               \<and> findById (contents w') i = Some c'
               \<and> content.fileUrl c' = path f \<and> content.fileType c' = mimetype f
               \<and> content.publicId c' = filename f"
proof -
  let ?c2 = "c\<lparr>title := js_or (body rq ''title'') (title c),
               content.description := js_or (body rq ''description'') (content.description c),
               content.updatedAt := clock w + elapsed_first ext,
               content.fileUrl := path f, content.fileType := mimetype f,
               content.publicId := filename f\<rparr>"
  from assms(3) have "title c \<noteq> []" "content.description c \<noteq> []" "category c \<noteq> []"
    by (simp_all add: validate_None_iff content_paths_def)
  with assms(4-6) have v: "validate ''Content'' (content_paths ?c2) = None"
    by (simp add: validate_None_iff content_paths_def js_or_nonempty)
  show ?thesis
    using assms(1,2)
    by (simp add: put_content_def Date_now_def Let_def v deleteFromCloudinary_def
          findById_replaceOne)
qed

lemma put_project_valid:
  assumes "uploaded rq = Some f" and "findById (projects w) i = Some p"
    and "validate ''Project'' (project_paths p) = None"
    and "path f \<noteq> []" and "mimetype f \<noteq> []" and "filename f \<noteq> []"
  shows "\<exists>p' w'. put_project ext rq i w
                  = (Response 200 (ProjectJson i p'),
                     [DbFindById Project i,
                      CloudinaryDestroy (project.publicId p) (getResourceType (project.fileType p)),
                      if destroy_fails ext then ConsoleError else ConsoleLog,
                      DbSave Project i], w')
               \<and> findById (projects w') i = Some p'
               \<and> project.fileUrl p' = path f \<and> project.fileType p' = mimetype f
               \<and> project.publicId p' = filename f"
proof -
  let ?p2 = "p\<lparr>projectTitle := js_or (body rq ''projectTitle'') (projectTitle p),
               studentName := js_or (body rq ''studentName'') (studentName p),
               rollNo := js_or (body rq ''rollNo'') (rollNo p),
               department := js_or (body rq ''department'') (department p),
               year := js_or (body rq ''year'') (year p),
               project.description := js_or (body rq ''description'') (project.description p),
               project.updatedAt := clock w + elapsed_first ext,
               project.fileUrl := path f, project.fileType := mimetype f,
               project.publicId := filename f\<rparr>"
  from assms(3) have "projectTitle p \<noteq> []" "studentName p \<noteq> []" "rollNo p \<noteq> []"
    "department p \<noteq> []" "year p \<noteq> []" "project.description p \<noteq> []"
    by (simp_all add: validate_None_iff project_paths_def)
  with assms(4-6) have v: "validate ''Project'' (project_paths ?p2) = None"
    by (simp add: validate_None_iff project_paths_def js_or_nonempty)
  show ?thesis
    using assms(1,2)
    by (simp add: put_project_def Date_now_def Let_def v deleteFromCloudinary_def
          findById_replaceOne)
qed

lemma delete_content_found:
  assumes "route r = DELETE_content i" and "header_x_admin_password r = ADMIN_PASSWORD cfg"
    and "findById (contents w) i = Some c"
  shows "app cfg ext r w
           = (Response 200 (MessageJson ''Content deleted successfully''),
              [DbFindById Content i,
               CloudinaryDestroy (content.publicId c) (getResourceType (content.fileType c)),
               if destroy_fails ext then ConsoleError else ConsoleLog,
               DbFindByIdAndDelete Content i],
              w\<lparr>contents := deleteOne i (contents w)\<rparr>)"
  using assms
  by (simp add: app_def protected_def authenticate_def express_req_def delete_content_def
        deleteFromCloudinary_def)

lemma delete_project_found:
  assumes "route r = DELETE_project i" and "header_x_admin_password r = ADMIN_PASSWORD cfg"
    and "findById (projects w) i = Some p"
  shows "app cfg ext r w
           = (Response 200 (MessageJson ''Project deleted successfully''),
              [DbFindById Project i,
               CloudinaryDestroy (project.publicId p) (getResourceType (project.fileType p)),
               if destroy_fails ext then ConsoleError else ConsoleLog,
               DbFindByIdAndDelete Project i],
              w\<lparr>projects := deleteOne i (projects w)\<rparr>)"
  using assms
  by (simp add: app_def protected_def authenticate_def express_req_def delete_project_def
        deleteFromCloudinary_def)

lemma get_after_delete_content:
  "route r2 = GET_content_item i \<Longrightarrow>
   app cfg2 ext2 r2 (w\<lparr>contents := deleteOne i (contents w)\<rparr>)
     = (Response 404 (ErrorJson (Text ''Content not found'')), [DbFindById Content i],
        w\<lparr>contents := deleteOne i (contents w)\<rparr>)"
  by (simp add: app_def get_content_item_def findById_deleteOne)

lemma get_after_delete_project:
  "route r2 = GET_project i \<Longrightarrow>
   app cfg2 ext2 r2 (w\<lparr>projects := deleteOne i (projects w)\<rparr>)
     = (Response 404 (ErrorJson (Text ''Project not found'')), [DbFindById Project i],
        w\<lparr>projects := deleteOne i (projects w)\<rparr>)"
  by (simp add: app_def get_project_def findById_deleteOne)

lemma delete_content_swallows:
  assumes "header_x_admin_password r = ADMIN_PASSWORD cfg" and "route r = DELETE_content i"
    and "findById (contents w) i = Some c" and "route r2 = GET_content_item i"
  shows "\<exists>fx w'. app cfg ext r w
                  = (Response 200 (MessageJson ''Content deleted successfully''), fx, w')
           \<and> destroy_calls fx = [(content.publicId c, getResourceType (content.fileType c))]
           \<and> (if destroy_fails ext then ConsoleError else ConsoleLog) \<in> set fx
           \<and> DbFindByIdAndDelete Content i \<in> set fx
           \<and> findById (contents w') i = None
           \<and> fst (app cfg2 ext2 r2 w') = Response 404 (ErrorJson (Text ''Content not found''))"
  unfolding delete_content_found [OF assms(2,1,3)]
  by (simp add: get_after_delete_content [OF assms(4)] findById_deleteOne)

lemma delete_project_swallows:
  assumes "header_x_admin_password r = ADMIN_PASSWORD cfg" and "route r = DELETE_project i"
    and "findById (projects w) i = Some p" and "route r2 = GET_project i"
  shows "\<exists>fx w'. app cfg ext r w
                  = (Response 200 (MessageJson ''Project deleted successfully''), fx, w')
           \<and> destroy_calls fx = [(project.publicId p, getResourceType (project.fileType p))]
           \<and> (if destroy_fails ext then ConsoleError else ConsoleLog) \<in> set fx
           \<and> DbFindByIdAndDelete Project i \<in> set fx
           \<and> findById (projects w') i = None
           \<and> fst (app cfg2 ext2 r2 w') = Response 404 (ErrorJson (Text ''Project not found''))"
  unfolding delete_project_found [OF assms(2,1,3)]
  by (simp add: get_after_delete_project [OF assms(4)] findById_deleteOne)

lemma update_content_swallows:
  assumes "header_x_admin_password r = ADMIN_PASSWORD cfg" and "route r = PUT_content i"
    and "findById (contents w) i = Some c"
    and "validate ''Content'' (content_paths c) = None"
    and "upload_single ext (express_req r) (file_part r) = (Next (Some f), ufx)"
    and "path f \<noteq> []" and "filename f \<noteq> []"
  shows "\<exists>c' fx w'. app cfg ext r w = (Response 200 (ContentJson i c'), fx, w')
           \<and> destroy_calls fx = [(content.publicId c, getResourceType (content.fileType c))]
           \<and> (if destroy_fails ext then ConsoleError else ConsoleLog) \<in> set fx
           \<and> DbSave Content i \<in> set fx
           \<and> findById (contents w') i = Some c'
           \<and> content.fileUrl c' = path f \<and> content.fileType c' = mimetype f
           \<and> content.publicId c' = filename f"
proof -
  let ?rq = "(express_req r)\<lparr>body := parsed_body r, uploaded := Some f\<rparr>"
  from upload_single_Some [OF assms(5)] have m: "mimetype f \<noteq> []"
    using allowedTypes_nonempty by blast
  have "uploaded ?rq = Some f" by simp
  from put_content_valid [OF this assms(3,4,6) m assms(7), of ext] obtain c' w' where
    "put_content ext ?rq i w
       = (Response 200 (ContentJson i c'),
          [DbFindById Content i,
           CloudinaryDestroy (content.publicId c) (getResourceType (content.fileType c)),
           if destroy_fails ext then ConsoleError else ConsoleLog,
           DbSave Content i], w')"
    and "findById (contents w') i = Some c'"
    and "content.fileUrl c' = path f" "content.fileType c' = mimetype f"
        "content.publicId c' = filename f"
    by (elim exE conjE)
  then show ?thesis
    using assms(2) upload_single_effects [OF assms(5)]
    by (simp add: app_def protected_upload_accepted [OF assms(1,5)] destroy_calls_append)
qed

lemma update_project_swallows:
  assumes "header_x_admin_password r = ADMIN_PASSWORD cfg" and "route r = PUT_project i"
    and "findById (projects w) i = Some p"
    and "validate ''Project'' (project_paths p) = None"
    and "upload_single ext (express_req r) (file_part r) = (Next (Some f), ufx)"
    and "path f \<noteq> []" and "filename f \<noteq> []"
  shows "\<exists>p' fx w'. app cfg ext r w = (Response 200 (ProjectJson i p'), fx, w')
           \<and> destroy_calls fx = [(project.publicId p, getResourceType (project.fileType p))]
           \<and> (if destroy_fails ext then ConsoleError else ConsoleLog) \<in> set fx
           \<and> DbSave Project i \<in> set fx
           \<and> findById (projects w') i = Some p'
           \<and> project.fileUrl p' = path f \<and> project.fileType p' = mimetype f
           \<and> project.publicId p' = filename f"
proof -
  let ?rq = "(express_req r)\<lparr>body := parsed_body r, uploaded := Some f\<rparr>"
  from upload_single_Some [OF assms(5)] have m: "mimetype f \<noteq> []"
    using allowedTypes_nonempty by blast
  have "uploaded ?rq = Some f" by simp
  from put_project_valid [OF this assms(3,4,6) m assms(7), of ext] obtain p' w' where
    "put_project ext ?rq i w
       = (Response 200 (ProjectJson i p'),
          [DbFindById Project i,
           CloudinaryDestroy (project.publicId p) (getResourceType (project.fileType p)),
           if destroy_fails ext then ConsoleError else ConsoleLog,
           DbSave Project i], w')"
    and "findById (projects w') i = Some p'"
    and "project.fileUrl p' = path f" "project.fileType p' = mimetype f"
        "project.publicId p' = filename f"
    by (elim exE conjE)
  then show ?thesis
    using assms(2) upload_single_effects [OF assms(5)]
    by (simp add: app_def protected_upload_accepted [OF assms(1,5)] destroy_calls_append)
qed

text \<open>
  C4. Whether or not the remote store's \<open>destroy\<close> call throws, the helper only writes
  a console line (\<open>console.error\<close> when it throws) and returns. An authorized delete of
  an existing record answers 200 with the success message, removes the record, and a
  later GET of that id answers 404. An authorized update with a file of an existing, valid
  record answers 200 with the updated record, which is stored with the new file reference.
\<close>

theorem remote_delete_failure_is_swallowed:
  assumes "header_x_admin_password r = ADMIN_PASSWORD cfg"
  shows "(route r = DELETE_content i \<and> findById (contents w) i = Some c
            \<and> route r2 = GET_content_item i \<longrightarrow>
          (\<exists>fx w'. app cfg ext r w
                      = (Response 200 (MessageJson ''Content deleted successfully''), fx, w')
             \<and> destroy_calls fx = [(content.publicId c, getResourceType (content.fileType c))]
             \<and> (if destroy_fails ext then ConsoleError else ConsoleLog) \<in> set fx
             \<and> DbFindByIdAndDelete Content i \<in> set fx
             \<and> findById (contents w') i = None
             \<and> fst (app cfg2 ext2 r2 w')
                 = Response 404 (ErrorJson (Text ''Content not found''))))
       \<and> (route r = DELETE_project i \<and> findById (projects w) i = Some p
            \<and> route r2 = GET_project i \<longrightarrow>
          (\<exists>fx w'. app cfg ext r w
                      = (Response 200 (MessageJson ''Project deleted successfully''), fx, w')
             \<and> destroy_calls fx = [(project.publicId p, getResourceType (project.fileType p))]
             \<and> (if destroy_fails ext then ConsoleError else ConsoleLog) \<in> set fx
             \<and> DbFindByIdAndDelete Project i \<in> set fx
             \<and> findById (projects w') i = None
             \<and> fst (app cfg2 ext2 r2 w')
                 = Response 404 (ErrorJson (Text ''Project not found''))))
       \<and> (route r = PUT_content i \<and> findById (contents w) i = Some c
            \<and> validate ''Content'' (content_paths c) = None
            \<and> upload_single ext (express_req r) (file_part r) = (Next (Some f), ufx)
            \<and> path f \<noteq> [] \<and> filename f \<noteq> [] \<longrightarrow>
          (\<exists>c' fx w'. app cfg ext r w = (Response 200 (ContentJson i c'), fx, w')
             \<and> destroy_calls fx = [(content.publicId c, getResourceType (content.fileType c))]
             \<and> (if destroy_fails ext then ConsoleError else ConsoleLog) \<in> set fx
             \<and> DbSave Content i \<in> set fx
             \<and> findById (contents w') i = Some c'
             \<and> content.fileUrl c' = path f \<and> content.fileType c' = mimetype f
             \<and> content.publicId c' = filename f))
       \<and> (route r = PUT_project i \<and> findById (projects w) i = Some p
            \<and> validate ''Project'' (project_paths p) = None
            \<and> upload_single ext (express_req r) (file_part r) = (Next (Some f), ufx)
            \<and> path f \<noteq> [] \<and> filename f \<noteq> [] \<longrightarrow>
          (\<exists>p' fx w'. app cfg ext r w = (Response 200 (ProjectJson i p'), fx, w')
             \<and> destroy_calls fx = [(project.publicId p, getResourceType (project.fileType p))]
             \<and> (if destroy_fails ext then ConsoleError else ConsoleLog) \<in> set fx
             \<and> DbSave Project i \<in> set fx
             \<and> findById (projects w') i = Some p'
             \<and> project.fileUrl p' = path f \<and> project.fileType p' = mimetype f
             \<and> project.publicId p' = filename f))"
    (is "?A \<and> ?B \<and> ?C \<and> ?D")
proof -
  have ?A
    using delete_content_swallows [OF assms, of i w c r2 ext cfg2 ext2] by blast
  moreover have ?B
    using delete_project_swallows [OF assms, of i w p r2 ext cfg2 ext2] by blast
  moreover have ?C
    using update_content_swallows [OF assms, of i w c ext f ufx] by blast
  moreover have ?D
    using update_project_swallows [OF assms, of i w p ext f ufx] by blast
  ultimately show ?thesis by (intro conjI)
qed

theorem remote_delete_failure_is_swallowed_witness:
  "destroy_fails sample_external
   \<and> findById (projects sample_world) 1 = Some sample_project
   \<and> app secret_config sample_external (bare_request (DELETE_project 1) (Some ''s3cret''))
         sample_world
       = (Response 200 (MessageJson ''Project deleted successfully''),
          [DbFindById Project 1, CloudinaryDestroy ''portfolio/robot'' ''video'', ConsoleError,
           DbFindByIdAndDelete Project 1],
          sample_world\<lparr>projects := []\<rparr>)
   \<and> app unset_config sample_external (bare_request (GET_project 1) None)
         (sample_world\<lparr>projects := []\<rparr>)
       = (Response 404 (ErrorJson (Text ''Project not found'')), [DbFindById Project 1],
          sample_world\<lparr>projects := []\<rparr>)
   \<and> validate ''Content'' (content_paths sample_photo) = None
   \<and> app secret_config sample_external
         (file_request (PUT_content 2) (Some ''s3cret'') Map.empty sample_pdf) sample_world
       = (Response 200
            (ContentJson 2
               (sample_photo
                  \<lparr>content.fileUrl := ''https://media.example/new.pdf'',
                   content.fileType := ''application/pdf'',
                   content.publicId := ''portfolio/new'', content.updatedAt := 25\<rparr>)),
          [CloudinaryUpload ''portfolio'' ''raw'', DbFindById Content 2,
           CloudinaryDestroy ''portfolio/hobbies/garden'' ''image'', ConsoleError,
           DbSave Content 2],
          sample_world
            \<lparr>contents :=
               [(1, sample_content),
                (2, sample_photo
                      \<lparr>content.fileUrl := ''https://media.example/new.pdf'',
                       content.fileType := ''application/pdf'',
                       content.publicId := ''portfolio/new'', content.updatedAt := 25\<rparr>),
                (3, sample_sketch)],
             clock := 25\<rparr>)"
  (is "?h1 \<and> ?h2 \<and> ?e1 \<and> ?e2 \<and> ?h3 \<and> ?e3")
proof -
  note remote_delete_failure_is_swallowed
         [where r = "bare_request (DELETE_project 1) (Some ''s3cret'')" and cfg = secret_config
            and ext = sample_external and w = sample_world and i = 1 and p = sample_project
            and ?r2.0 = "bare_request (GET_project 1) None" and ?cfg2.0 = unset_config
            and ?ext2.0 = sample_external]
  then have ?e1
    by (simp add: sample_defs app_def protected_def authenticate_def express_req_def
          delete_project_def findById_def deleteFromCloudinary_def getResourceType_def
          deleteOne_def)
  moreover have ?e2
    by (simp add: sample_defs app_def get_project_def findById_def)
  moreover have ?h1 and ?h2
    by (simp_all add: sample_defs findById_def)
  moreover have ?h3
    by (simp add: sample_defs validate_def required_failures_def content_paths_def)
  moreover
  note remote_delete_failure_is_swallowed
         [where r = "file_request (PUT_content 2) (Some ''s3cret'') Map.empty sample_pdf"
            and cfg = secret_config and ext = sample_external and w = sample_world and i = 2
            and c = sample_photo]
  then have ?e3
    by (simp add: sample_defs app_def protected_upload_def authenticate_def
          express_req_def upload_single_def fileFilter_def allowedTypes_def params_def
          fileSize_def put_content_def Date_now_def parsed_body_def js_or_def
          validate_def content_paths_def required_failures_def findById_def
          replaceOne_def deleteFromCloudinary_def getResourceType_def Let_def)
  ultimately show ?thesis by (intro conjI)
qed

section \<open>Creation and timestamps\<close>

lemma fold_max_ge: "(a::nat) \<le> fold max xs a"
  by (induction xs arbitrary: a) (auto intro: le_trans [OF max.cobounded2])

lemma fold_max_member: "(x::nat) \<in> set xs \<Longrightarrow> x \<le> fold max xs a"
proof (induction xs arbitrary: a)
  case Nil
  then show ?case by simp
next
  case (Cons y ys)
  show ?case
  proof (cases "x = y")
    case True
    have "max y a \<le> fold max ys (max y a)" by (rule fold_max_ge)
    with True show ?thesis by simp
  next
    case False
    with Cons show ?thesis by simp
  qed
qed

lemma new_id_fresh: "new_id docs \<notin> fst ` set docs"
proof
  assume "new_id docs \<in> fst ` set docs"
  then have "new_id docs \<in> set (map fst docs)" by simp
  from fold_max_member [OF this, of 0] show False by (simp add: new_id_def)
qed

lemma findById_insert_new:
  "findById (insertOne (new_id docs) d docs) j =
     (if j = new_id docs then Some d else findById docs j)"
proof -
  have "map_of docs (new_id docs) = None"
    using new_id_fresh [of docs] by (simp add: map_of_eq_None_iff)
  then show ?thesis
    by (auto simp: findById_def insertOne_def map_add_def split: option.splits)
qed

lemma findById_fresh: "findById docs (new_id docs) = None"
  using new_id_fresh [of docs] by (simp add: findById_def map_of_eq_None_iff)

lemma findById_mem: "findById docs i = Some c \<Longrightarrow> (i, c) \<in> set docs"
  by (simp add: findById_def map_of_SomeD)

lemma set_replaceOne: "set (replaceOne i d docs) \<subseteq> insert (i, d) (set docs)"
  by (auto simp: replaceOne_def split: if_splits)

lemma set_deleteOne: "set (deleteOne i docs) \<subseteq> set docs"
  by (auto simp: deleteOne_def)

lemma protected_upload_cases:
  assumes "protected_upload cfg ext r w h = (resp, fx, w')"
  shows "(w' = w \<and> (\<exists>st m. resp = Response st (ErrorJson m)))
       \<or> (\<exists>f ufx hfx. upload_single ext (express_req r) (file_part r) = (Next f, ufx)
             \<and> h ((express_req r)\<lparr>body := parsed_body r, uploaded := f\<rparr>) w = (resp, hfx, w')
             \<and> fx = ufx @ hfx)"
  using assms
  by (auto simp: protected_upload_def authenticate_def error_middleware_def
           split: option.splits if_splits prod.splits multer_result.splits)

lemma protected_cases:
  assumes "protected cfg r w h = (resp, fx, w')"
  shows "(w' = w \<and> (\<exists>st m. resp = Response st (ErrorJson m))) \<or> h w = (resp, fx, w')"
  using assms
  by (auto simp: protected_def authenticate_def split: option.splits if_splits)

lemma post_content_created:
  assumes "post_content ext rq w = (Response 201 (ContentJson j d), fx, w')"
  shows "\<exists>f. uploaded rq = Some f \<and> content.fileUrl d = path f \<and> content.publicId d = filename f
             \<and> content.fileType d = mimetype f"
    and "findById (contents w') j = Some d"
    and "content.createdAt d = clock w + elapsed_first ext"
    and "content.updatedAt d = content.createdAt d + elapsed_second ext"
  using assms
  by (auto simp: post_content_def Date_now_def Let_def findById_insert_new
           split: option.splits)

lemma post_project_created:
  assumes "post_project ext rq w = (Response 201 (ProjectJson j d), fx, w')"
  shows "\<exists>f. uploaded rq = Some f \<and> project.fileUrl d = path f \<and> project.publicId d = filename f
             \<and> project.fileType d = mimetype f"
    and "findById (projects w') j = Some d"
    and "project.createdAt d = clock w + elapsed_first ext"
    and "project.updatedAt d = project.createdAt d + elapsed_second ext"
  using assms
  by (auto simp: post_project_def Date_now_def Let_def findById_insert_new
           split: option.splits)

lemma set_insertOne: "set (insertOne i d docs) = insert (i, d) (set docs)"
  by (simp add: insertOne_def)

lemma found_not_new: "findById docs i = Some c \<Longrightarrow> i \<noteq> new_id docs"
  using findById_fresh [of docs] by auto

lemma keeps_history_refl: "keeps_history w w"
  by (simp add: keeps_history_def)

lemma post_content_keeps: "keeps_history w (snd (snd (post_content ext rq w)))"
  by (auto simp: keeps_history_def timestamps_ok_def post_content_def Date_now_def Let_def
        list_all_iff findById_insert_new set_insertOne dest: found_not_new
        split: option.splits if_splits)

lemma post_project_keeps: "keeps_history w (snd (snd (post_project ext rq w)))"
  by (auto simp: keeps_history_def timestamps_ok_def post_project_def Date_now_def Let_def
        list_all_iff findById_insert_new set_insertOne dest: found_not_new
        split: option.splits if_splits)

lemma mem_replaceOne: "x \<in> set (replaceOne i d docs) \<Longrightarrow> x = (i, d) \<or> x \<in> set docs"
  using set_replaceOne [of i d docs] by auto

lemma mem_deleteOne: "x \<in> set (deleteOne i docs) \<Longrightarrow> x \<in> set docs"
  using set_deleteOne [of i docs] by auto

lemma put_content_keeps: "keeps_history w (snd (snd (put_content ext rq i w)))"
  by (auto simp: keeps_history_def timestamps_ok_def put_content_def Date_now_def Let_def
        list_all_iff findById_replaceOne dest!: findById_mem mem_replaceOne
        split: option.splits if_splits)

lemma put_project_keeps: "keeps_history w (snd (snd (put_project ext rq i w)))"
  by (auto simp: keeps_history_def timestamps_ok_def put_project_def Date_now_def Let_def
        list_all_iff findById_replaceOne dest!: findById_mem mem_replaceOne
        split: option.splits if_splits)

lemma delete_content_keeps: "keeps_history w (snd (snd (delete_content ext i w)))"
  by (auto simp: keeps_history_def timestamps_ok_def delete_content_def
        list_all_iff findById_deleteOne dest!: mem_deleteOne
        split: option.splits if_splits)

lemma delete_project_keeps: "keeps_history w (snd (snd (delete_project ext i w)))"
  by (auto simp: keeps_history_def timestamps_ok_def delete_project_def
        list_all_iff findById_deleteOne dest!: mem_deleteOne
        split: option.splits if_splits)

lemma protected_upload_keeps:
  assumes "\<And>rq. keeps_history w (snd (snd (h rq w)))"
  shows "keeps_history w (snd (snd (protected_upload cfg ext r w h)))"
proof -
  obtain resp fx w' where p: "protected_upload cfg ext r w h = (resp, fx, w')"
    by (cases "protected_upload cfg ext r w h") auto
  from protected_upload_cases [OF p] show ?thesis
  proof
    assume "w' = w \<and> (\<exists>st m. resp = Response st (ErrorJson m))"
    with p show ?thesis by (simp add: keeps_history_refl)
  next
    assume "\<exists>f ufx hfx. upload_single ext (express_req r) (file_part r) = (Next f, ufx)
             \<and> h ((express_req r)\<lparr>body := parsed_body r, uploaded := f\<rparr>) w = (resp, hfx, w')
             \<and> fx = ufx @ hfx"
    then obtain f hfx where
      "h ((express_req r)\<lparr>body := parsed_body r, uploaded := f\<rparr>) w = (resp, hfx, w')"
      by blast
    with assms [of "(express_req r)\<lparr>body := parsed_body r, uploaded := f\<rparr>"] p
    show ?thesis by simp
  qed
qed

lemma protected_keeps:
  assumes "keeps_history w (snd (snd (h w)))"
  shows "keeps_history w (snd (snd (protected cfg r w h)))"
  using assms
  by (simp add: protected_def keeps_history_refl split: option.splits)

lemma app_keeps_history: "keeps_history w (snd (snd (app cfg ext r w)))"
  by (cases "route r")
     (simp_all add: app_def get_content_by_category_def get_content_item_def get_projects_def
        get_project_def keeps_history_refl protected_upload_keeps protected_keeps
        post_content_keeps post_project_keeps put_content_keeps put_project_keeps
        delete_content_keeps delete_project_keeps split: option.splits)

lemma run_keeps_timestamps: "timestamps_ok w \<Longrightarrow> timestamps_ok (run cfg w rs)"
proof (induction rs arbitrary: w)
  case Nil
  then show ?case by simp
next
  case (Cons x rs)
  obtain ext r where x: "x = (ext, r)" by (cases x)
  from app_keeps_history [of w cfg ext r] Cons.prems
  have "timestamps_ok (snd (snd (app cfg ext r w)))"
    by (simp add: keeps_history_def)
  from Cons.IH [OF this] x show ?case by simp
qed

lemma timestamps_ok_empty: "timestamps_ok empty_world"
  by (simp add: timestamps_ok_def empty_world_def)

lemma create_content_result:
  assumes "route r = POST_content"
    and "app cfg ext r w = (Response 201 (ContentJson j d), fx, w')"
  shows "upload_result ext = Inr (content.fileUrl d, content.publicId d)
       \<and> findById (contents w') j = Some d
       \<and> content.createdAt d \<le> content.updatedAt d
       \<and> content.updatedAt d = content.createdAt d + elapsed_second ext"
proof -
  from assms have "protected_upload cfg ext r w (post_content ext)
                     = (Response 201 (ContentJson j d), fx, w')"
    by (simp add: app_def)
  from protected_upload_cases [OF this] obtain f ufx hfx where
    u: "upload_single ext (express_req r) (file_part r) = (Next f, ufx)"
    and h: "post_content ext ((express_req r)\<lparr>body := parsed_body r, uploaded := f\<rparr>) w
              = (Response 201 (ContentJson j d), hfx, w')"
    by auto
  from post_content_created(1) [OF h] obtain f' where
    f: "f = Some f'" and "content.fileUrl d = path f'" "content.publicId d = filename f'"
    by auto
  with upload_single_Some [of ext "express_req r" "file_part r" f' ufx] u
  have "upload_result ext = Inr (content.fileUrl d, content.publicId d)" by simp
  with post_content_created(2-4) [OF h] show ?thesis by simp
qed

lemma create_project_result:
  assumes "route r = POST_project"
    and "app cfg ext r w = (Response 201 (ProjectJson j d), fx, w')"
  shows "upload_result ext = Inr (project.fileUrl d, project.publicId d)
       \<and> findById (projects w') j = Some d
       \<and> project.createdAt d \<le> project.updatedAt d
       \<and> project.updatedAt d = project.createdAt d + elapsed_second ext"
proof -
  from assms have "protected_upload cfg ext r w (post_project ext)
                     = (Response 201 (ProjectJson j d), fx, w')"
    by (simp add: app_def)
  from protected_upload_cases [OF this] obtain f ufx hfx where
    u: "upload_single ext (express_req r) (file_part r) = (Next f, ufx)"
    and h: "post_project ext ((express_req r)\<lparr>body := parsed_body r, uploaded := f\<rparr>) w
              = (Response 201 (ProjectJson j d), hfx, w')"
    by auto
  from post_project_created(1) [OF h] obtain f' where
    f: "f = Some f'" and "project.fileUrl d = path f'" "project.publicId d = filename f'"
    by auto
  with upload_single_Some [of ext "express_req r" "file_part r" f' ufx] u
  have "upload_result ext = Inr (project.fileUrl d, project.publicId d)" by simp
  with post_project_created(2-4) [OF h] show ?thesis by simp
qed

lemma reachable_timestamps:
  "list_all (\<lambda>d. content.createdAt (snd d) \<le> content.updatedAt (snd d))
     (contents (run cfg empty_world rs))
   \<and> list_all (\<lambda>d. project.createdAt (snd d) \<le> project.updatedAt (snd d))
       (projects (run cfg empty_world rs))"
  using run_keeps_timestamps [OF timestamps_ok_empty, of cfg rs]
  by (simp add: timestamps_ok_def list_all_iff)

text \<open>
  C6, as amended. A record answered by a successful create carries the URL and the public
  id that the remote store returned, and is stored under its id. Its \<open>createdAt\<close> is at
  most its \<open>updatedAt\<close>: the two defaults are two readings of the clock, and
  \<open>updatedAt\<close> exceeds \<open>createdAt\<close> by the time that passed between them (they are equal
  when both readings fall in the same millisecond). No request changes the \<open>createdAt\<close>
  of a record that exists before and after it. With a clock that does not run backwards,
  every record in every state reached from the empty store has
  \<open>createdAt \<le> updatedAt\<close>.
\<close>

theorem creation_reference_and_timestamps:
  "(route r = POST_content \<and> app cfg ext r w = (Response 201 (ContentJson j d), fx, w') \<longrightarrow>
      upload_result ext = Inr (content.fileUrl d, content.publicId d)
      \<and> findById (contents w') j = Some d
      \<and> content.createdAt d \<le> content.updatedAt d
      \<and> content.updatedAt d = content.createdAt d + elapsed_second ext)
   \<and> (route r = POST_project \<and> app cfg ext r w = (Response 201 (ProjectJson j q), fx, w') \<longrightarrow>
      upload_result ext = Inr (project.fileUrl q, project.publicId q)
      \<and> findById (projects w') j = Some q
      \<and> project.createdAt q \<le> project.updatedAt q
      \<and> project.updatedAt q = project.createdAt q + elapsed_second ext)
   \<and> (findById (contents w) i = Some c
        \<and> findById (contents (snd (snd (app cfg ext r w)))) i = Some c' \<longrightarrow>
      content.createdAt c' = content.createdAt c)
   \<and> (findById (projects w) i = Some p
        \<and> findById (projects (snd (snd (app cfg ext r w)))) i = Some p' \<longrightarrow>
      project.createdAt p' = project.createdAt p)
   \<and> list_all (\<lambda>d. content.createdAt (snd d) \<le> content.updatedAt (snd d))
       (contents (run cfg empty_world rs))
   \<and> list_all (\<lambda>d. project.createdAt (snd d) \<le> project.updatedAt (snd d))
       (projects (run cfg empty_world rs))"
  (is "?A \<and> ?B \<and> ?C \<and> ?D \<and> ?E \<and> ?F")
proof -
  have ?A using create_content_result [of r cfg ext w j d fx w'] by blast
  moreover have ?B using create_project_result [of r cfg ext w j q fx w'] by blast
  moreover have ?C and ?D
    using app_keeps_history [of w cfg ext r] by (auto simp: keeps_history_def)
  moreover have ?E and ?F
    using reachable_timestamps [of cfg rs] by simp_all
  ultimately show ?thesis by (intro conjI)
qed

text \<open>
  C6 as stated fails: when one millisecond passes between the two readings of the clock
  that fill the defaults of \<open>createdAt\<close> and \<open>updatedAt\<close>, the created record has
  \<open>createdAt = 25\<close> and \<open>updatedAt = 26\<close>.
\<close>

theorem created_and_updated_differ:
  "app secret_config sample_external
     (file_request POST_content (Some ''s3cret'') sample_content_fields sample_pdf) sample_world
   = (Response 201
        (ContentJson 4
           \<lparr>title = ''Notes'', content.description = ''Week one'',
            content.fileUrl = ''https://media.example/new.pdf'',
            content.fileType = ''application/pdf'', content.publicId = ''portfolio/new'',
            category = ''curriculum'', content.createdAt = 25, content.updatedAt = 26\<rparr>),
      [CloudinaryUpload ''portfolio/curriculum'' ''raw'', DbSave Content 4],
      sample_world
        \<lparr>contents :=
           [(1, sample_content), (2, sample_photo), (3, sample_sketch),
            (4, \<lparr>title = ''Notes'', content.description = ''Week one'',
                 content.fileUrl = ''https://media.example/new.pdf'',
                 content.fileType = ''application/pdf'', content.publicId = ''portfolio/new'',
                 category = ''curriculum'', content.createdAt = 25, content.updatedAt = 26\<rparr>)],
         clock := 26\<rparr>)"
  by (simp add: sample_defs app_def protected_upload_def authenticate_def
        express_req_def upload_single_def fileFilter_def allowedTypes_def params_def fileSize_def
        post_content_def Date_now_def parsed_body_def path_value_def validate_def
        content_paths_def required_failures_def new_id_def insertOne_def Let_def)

theorem creation_reference_and_timestamps_witness:
  "app secret_config (sample_external\<lparr>elapsed_second := 0\<rparr>)
     (file_request POST_content (Some ''s3cret'') sample_content_fields sample_pdf) sample_world
   = (Response 201
        (ContentJson 4
           \<lparr>title = ''Notes'', content.description = ''Week one'',
            content.fileUrl = ''https://media.example/new.pdf'',
            content.fileType = ''application/pdf'', content.publicId = ''portfolio/new'',
            category = ''curriculum'', content.createdAt = 25, content.updatedAt = 25\<rparr>),
      [CloudinaryUpload ''portfolio/curriculum'' ''raw'', DbSave Content 4],
      sample_world
        \<lparr>contents :=
           [(1, sample_content), (2, sample_photo), (3, sample_sketch),
            (4, \<lparr>title = ''Notes'', content.description = ''Week one'',
                 content.fileUrl = ''https://media.example/new.pdf'',
                 content.fileType = ''application/pdf'', content.publicId = ''portfolio/new'',
                 category = ''curriculum'', content.createdAt = 25, content.updatedAt = 25\<rparr>)],
         clock := 25\<rparr>)
   \<and> upload_result (sample_external\<lparr>elapsed_second := 0\<rparr>)
       = Inr (''https://media.example/new.pdf'', ''portfolio/new'')
   \<and> findById (contents sample_world) 1 = Some sample_content"
  (is "?e1 \<and> ?e2 \<and> ?h1")
proof -
  note creation_reference_and_timestamps
         [where r = "file_request POST_content (Some ''s3cret'') sample_content_fields
                        sample_pdf"
             and cfg = secret_config and ext = "sample_external\<lparr>elapsed_second := 0\<rparr>"
             and w = sample_world and j = 4 and i = 1 and c = sample_content and rs = "[]"]
  then have ?e1
    by (simp add: sample_defs app_def protected_upload_def authenticate_def
          express_req_def upload_single_def fileFilter_def allowedTypes_def params_def
          fileSize_def post_content_def Date_now_def parsed_body_def path_value_def
          validate_def content_paths_def required_failures_def new_id_def insertOne_def Let_def)
  moreover have ?e2 and ?h1
    by (simp_all add: sample_defs findById_def)
  ultimately show ?thesis by (intro conjI)
qed

end
